theory Spec2Isabelle
  imports Main
begin

section \<open>PySide6 installer and uninstaller for the engine's embedded Python\<close>

text \<open>
  The two scripts \<^verbatim>\<open>UE_installPyside6.py\<close> and \<^verbatim>\<open>UE_uninstallPyside6.py\<close> locate the
  Python interpreter bundled with the editor, run \<^verbatim>\<open>pip\<close> in a child process and, for
  the uninstaller, sweep leftovers out of site-packages. Everything they do is an effect
  on the machine they run on, so the embedding makes that machine explicit:
  \<^item> a \<^emph>\<open>host\<close> holds what the script reads from its process (\<^verbatim>\<open>sys.platform\<close>,
    \<^verbatim>\<open>sys.executable\<close>, \<^verbatim>\<open>sys.argv\<close>) and how the platform behaves (parsing and
    printing of paths, \<^verbatim>\<open>resolve\<close>, \<^verbatim>\<open>glob.glob\<close>, and what a child process does);
  \<^item> a \<^emph>\<open>machine\<close> holds what can change: the file table, the entries the
    operating system refuses to delete, the directories that cannot be searched, and
    what the import system knows of the top-level modules;
  \<^item> a \<^emph>\<open>state\<close> is the machine together with the host log and the list of commands
    handed to \<^verbatim>\<open>subprocess\<close>.
  A Python function that may raise returns \<open>exn + 'a\<close> (\<open>Inl\<close> the exception); one
  that has effects also returns the new state.
\<close>

subsection \<open>Strings\<close>

definition lower_char :: "char \<Rightarrow> char" where
  "lower_char c =
     (case map_of (zip ''ABCDEFGHIJKLMNOPQRSTUVWXYZ'' ''abcdefghijklmnopqrstuvwxyz'') c of
        Some d \<Rightarrow> d
      | None \<Rightarrow> c)"

text \<open>\<^verbatim>\<open>str.lower()\<close> on the ASCII letters (a \<open>char\<close> is a byte).\<close>

definition lower :: "string \<Rightarrow> string" where
  "lower s = map lower_char s"

text \<open>\<^verbatim>\<open>s.startswith(pre)\<close>.\<close>

definition startswith :: "string \<Rightarrow> string \<Rightarrow> bool" where
  "startswith s pre = (take (length pre) s = pre)"

text \<open>
  \<^verbatim>\<open>str.isspace\<close> on one character: of Python's white-space characters, those that a
  \<open>char\<close> can hold (U+0009 to U+000D, U+001C to U+0020, U+0085 and U+00A0).
\<close>

definition is_space :: "char \<Rightarrow> bool" where
  "is_space c =
     (c \<in> set [CHR 0x09, CHR 0x0A, CHR 0x0B, CHR 0x0C, CHR 0x0D,
                CHR 0x1C, CHR 0x1D, CHR 0x1E, CHR 0x1F, CHR 0x20, CHR 0x85, CHR 0xA0])"

text \<open>\<^verbatim>\<open>s.strip()\<close>: white space removed at both ends.\<close>

definition strip :: "string \<Rightarrow> string" where
  "strip s = rev (dropWhile is_space (rev (dropWhile is_space s)))"

text \<open>\<^verbatim>\<open>' '.join(cmd)\<close>.\<close>

fun join_spaces :: "string list \<Rightarrow> string" where
  "join_spaces [] = []"
| "join_spaces [x] = x"
| "join_spaces (x # y # ys) = x @ '' '' @ join_spaces (y # ys)"

text \<open>
  Shell-style wildcard matching (\<^verbatim>\<open>fnmatch\<close>) of a name against a pattern in which
  \<^verbatim>\<open>*\<close> stands for any run of characters; the patterns of the scripts use no other
  wildcard.
\<close>

fun fnmatch :: "string \<Rightarrow> string \<Rightarrow> bool" where
  "fnmatch [] s = (s = [])"
| "fnmatch (c # p) [] = (c = CHR ''*'' \<and> fnmatch p [])"
| "fnmatch (c # p) (d # s) =
     (if c = CHR ''*'' then fnmatch p (d # s) \<or> fnmatch (c # p) s
      else c = d \<and> fnmatch p s)"

subsection \<open>Exceptions\<close>

text \<open>
  The exceptions the scripts can meet: \<^verbatim>\<open>IndexError\<close> from an index out of range;
  \<^verbatim>\<open>TypeError\<close> from \<^verbatim>\<open>Path(None)\<close>;
  \<^verbatim>\<open>OSError\<close> from the operating system (a process that cannot be started, a file
  that cannot be removed, and \<^verbatim>\<open>PermissionError\<close>, one of its subclasses, for a path
  whose status cannot be read); \<^verbatim>\<open>subprocess.CalledProcessError\<close> with the exit status;
  \<^verbatim>\<open>UnicodeDecodeError\<close> from captured output that is not text; \<^verbatim>\<open>ValueError\<close> from
  \<^verbatim>\<open>importlib.util.find_spec\<close>; \<^verbatim>\<open>RuntimeError\<close> from \<^verbatim>\<open>Path.resolve\<close>.
\<close>

datatype exn =
  IndexError | TypeError | OSError | CalledProcessError int | UnicodeDecodeError | ValueError |
  RuntimeError

subsection \<open>Paths\<close>

text \<open>
  A \<^verbatim>\<open>pathlib.Path\<close>: its anchor (drive and root) and its components.
\<close>

datatype path = Path (anchor: string) (parts: "string list")

text \<open>\<^verbatim>\<open>p / s\<close> for a single relative component \<open>s\<close>.\<close>

definition joinpath :: "path \<Rightarrow> string \<Rightarrow> path" where
  "joinpath p s = Path (anchor p) (parts p @ [s])"

text \<open>\<^verbatim>\<open>p.parents[k]\<close>: there are as many parents as components.\<close>

definition parents :: "path \<Rightarrow> nat \<Rightarrow> exn + path" where
  "parents p k =
     (if k < length (parts p)
      then Inr (Path (anchor p) (take (length (parts p) - Suc k) (parts p)))
      else Inl IndexError)"

text \<open>\<^verbatim>\<open>p.parent\<close> and \<^verbatim>\<open>p.name\<close>.\<close>

definition parent :: "path \<Rightarrow> path" where
  "parent p = Path (anchor p) (butlast (parts p))"

definition name :: "path \<Rightarrow> string" where
  "name p = (if parts p = [] then [] else last (parts p))"

text \<open>\<open>under d q\<close>: \<open>q\<close> is \<open>d\<close> or lies beneath it.\<close>

definition under :: "path \<Rightarrow> path \<Rightarrow> bool" where
  "under d q = (anchor q = anchor d \<and> take (length (parts d)) (parts q) = parts d)"

text \<open>\<open>beneath d q\<close>: \<open>q\<close> lies beneath \<open>d\<close> and is not \<open>d\<close> itself.\<close>

definition beneath :: "path \<Rightarrow> path \<Rightarrow> bool" where
  "beneath d q = (under d q \<and> q \<noteq> d)"

subsection \<open>The machine\<close>

text \<open>
  A file table entry is a regular file (with its execute permission) or a directory.
  The table lists the entries in the order a directory scan reports them. Beside it the
  machine holds the entries the operating system refuses to remove (a library in use),
  the directories that cannot be searched, the top-level modules for which the import
  system finds a spec, and the names that \<^verbatim>\<open>sys.modules\<close> holds without a spec.
\<close>

datatype node = File bool | Dir

record machine =
  files :: "(path \<times> node) list"
  locked :: "path list"
  unsearchable :: "path list"
  modules :: "string list"
  specless :: "string list"

text \<open>
  \<^verbatim>\<open>Path.stat()\<close>, as far as the scripts use it: the status of anything beneath a
  directory that cannot be searched is refused with \<^verbatim>\<open>PermissionError\<close>; otherwise
  the table answers, a path that is not in it being absent.
\<close>

definition stat :: "machine \<Rightarrow> path \<Rightarrow> exn + node option" where
  "stat m p =
     (if list_ex (\<lambda>d. beneath d p) (unsearchable m) then Inl OSError
      else Inr (map_of (files m) p))"

text \<open>
  \<^verbatim>\<open>Path.exists()\<close>, \<^verbatim>\<open>Path.is_file()\<close> and \<^verbatim>\<open>Path.is_dir()\<close> answer false for an
  absent path and pass a \<^verbatim>\<open>PermissionError\<close> on; \<^verbatim>\<open>os.access(p, os.X_OK)\<close> answers
  false where the status is refused.
\<close>

definition exists :: "machine \<Rightarrow> path \<Rightarrow> exn + bool" where
  "exists m p = (case stat m p of Inl e \<Rightarrow> Inl e | Inr r \<Rightarrow> Inr (r \<noteq> None))"

definition is_file :: "machine \<Rightarrow> path \<Rightarrow> exn + bool" where
  "is_file m p =
     (case stat m p of
        Inl e \<Rightarrow> Inl e
      | Inr r \<Rightarrow> Inr (case r of Some (File x) \<Rightarrow> True | _ \<Rightarrow> False))"

definition is_dir :: "machine \<Rightarrow> path \<Rightarrow> exn + bool" where
  "is_dir m p = (case stat m p of Inl e \<Rightarrow> Inl e | Inr r \<Rightarrow> Inr (r = Some Dir))"

definition access_x :: "machine \<Rightarrow> path \<Rightarrow> bool" where
  "access_x m p =
     (case stat m p of
        Inr (Some (File x)) \<Rightarrow> x
      | Inr (Some Dir) \<Rightarrow> True
      | _ \<Rightarrow> False)"

text \<open>
  \<^verbatim>\<open>importlib.util.find_spec(name)\<close> for a top-level module, as a truth value (a spec
  or \<^verbatim>\<open>None\<close>); it raises \<^verbatim>\<open>ValueError\<close> when \<^verbatim>\<open>sys.modules\<close> holds the name with
  \<^verbatim>\<open>__spec__\<close> set to \<^verbatim>\<open>None\<close>.
\<close>

definition find_spec :: "machine \<Rightarrow> string \<Rightarrow> exn + bool" where
  "find_spec m n = (if n \<in> set (specless m) then Inl ValueError else Inr (n \<in> set (modules m)))"

subsection \<open>The host\<close>

text \<open>
  A command handed to \<^verbatim>\<open>subprocess\<close>: its argument vector and the working directory
  when one is given. A child process either cannot be started, or runs to its exit
  status; its captured output is then a text, or \<open>None\<close> when the bytes it wrote cannot
  be decoded. While it runs it may change the machine.
\<close>

datatype command = Command (args: "string list") (cwd: "string option")

datatype proc_outcome = NotStarted | Exited int "string option"

text \<open>
  \<^verbatim>\<open>sys.executable\<close> is a text or \<^verbatim>\<open>None\<close> (when Python cannot tell the path of its
  executable). \<^verbatim>\<open>path_of\<close> is \<^verbatim>\<open>Path(text)\<close>, \<^verbatim>\<open>str_of\<close> is \<^verbatim>\<open>str(path)\<close>,
  \<^verbatim>\<open>resolve\<close> is \<^verbatim>\<open>Path.resolve()\<close> (which may raise) and \<^verbatim>\<open>glob_glob\<close> is
  \<^verbatim>\<open>glob.glob(pattern, recursive=True)\<close>: the host says what they answer.
\<close>

record host =
  sys_platform :: string
  sys_executable :: "string option"
  sys_argv :: "string list"
  path_of :: "string \<Rightarrow> path"
  str_of :: "path \<Rightarrow> string"
  resolve :: "path \<Rightarrow> exn + path"
  glob_glob :: "string \<Rightarrow> machine \<Rightarrow> string list"
  child :: "command \<Rightarrow> machine \<Rightarrow> proc_outcome \<times> machine"

text \<open>
  \<^verbatim>\<open>Path.glob\<close> compares names without regard to case on Windows.
\<close>

definition name_matches :: "host \<Rightarrow> string \<Rightarrow> string \<Rightarrow> bool" where
  "name_matches h pat n =
     (if startswith (sys_platform h) ''win'' then fnmatch (lower pat) (lower n)
      else fnmatch pat n)"

subsection \<open>Locating the embedded interpreter\<close>

text \<open>
  The loop \<^verbatim>\<open>for c in candidates: if c.exists(): return c\<close>; a check that raises ends
  the loop with its exception.
\<close>

fun first_existing :: "machine \<Rightarrow> path list \<Rightarrow> exn + path option" where
  "first_existing m [] = Inr None"
| "first_existing m (c # cs) =
     (case exists m c of
        Inl e \<Rightarrow> Inl e
      | Inr b \<Rightarrow> if b then Inr (Some c) else first_existing m cs)"

text \<open>
  The loop over the hits of the wildcard search, with the test
  \<^verbatim>\<open>p.is_file() and os.access(p, os.X_OK)\<close>.
\<close>

fun first_executable :: "machine \<Rightarrow> path list \<Rightarrow> exn + path option" where
  "first_executable m [] = Inr None"
| "first_executable m (p # ps) =
     (case is_file m p of
        Inl e \<Rightarrow> Inl e
      | Inr b \<Rightarrow> if b \<and> access_x m p then Inr (Some p) else first_executable m ps)"

definition candidates :: "host \<Rightarrow> path \<Rightarrow> path list" where
  "candidates h thirdparty =
     (if startswith (sys_platform h) ''win'' then
        [joinpath (joinpath (joinpath thirdparty ''Python3'') ''Win64'') ''python.exe'',
         joinpath (joinpath (joinpath thirdparty ''Python3'') ''Win64'') ''python3.exe'']
      else if sys_platform h = ''darwin'' then
        [joinpath (joinpath (joinpath (joinpath thirdparty ''Python3'') ''Mac'') ''bin'') ''python3'']
      else
        [joinpath (joinpath (joinpath (joinpath thirdparty ''Python3'') ''Linux'') ''bin'') ''python3''])"

text \<open>
  \<^verbatim>\<open>hits = glob.glob(str(thirdparty / "Python*" / "**" / "python*"), recursive=True)\<close>,
  each hit read back with \<^verbatim>\<open>Path(h)\<close>. The whole text is the pattern, the directory
  part included.
\<close>

definition hits :: "host \<Rightarrow> machine \<Rightarrow> path \<Rightarrow> path list" where
  "hits h m thirdparty =
     map (path_of h)
       (glob_glob h (str_of h (joinpath (joinpath (joinpath thirdparty ''Python*'') ''**'') ''python*'')) m)"

text \<open>The body of the \<^verbatim>\<open>try\<close> block of \<^verbatim>\<open>_guess_embedded_python_exe_from_editor\<close>.\<close>

definition guess_body :: "host \<Rightarrow> machine \<Rightarrow> path \<Rightarrow> exn + path option" where
  "guess_body h m editor_exe =
     (case parents editor_exe 2 of
        Inl e \<Rightarrow> Inl e
      | Inr engine_dir \<Rightarrow>
          (let thirdparty = joinpath (joinpath engine_dir ''Binaries'') ''ThirdParty'' in
           case first_existing m (candidates h thirdparty) of
             Inl e \<Rightarrow> Inl e
           | Inr (Some c) \<Rightarrow> Inr (Some c)
           | Inr None \<Rightarrow> first_executable m (hits h m thirdparty)))"

text \<open>
  \<^verbatim>\<open>_guess_embedded_python_exe_from_editor\<close> (a constant cannot begin with an
  underscore): \<^verbatim>\<open>except Exception: pass\<close> and the final \<^verbatim>\<open>return None\<close>.
\<close>

definition guess_embedded_python_exe_from_editor :: "host \<Rightarrow> machine \<Rightarrow> path \<Rightarrow> path option" where
  "guess_embedded_python_exe_from_editor h m editor_exe =
     (case guess_body h m editor_exe of Inl e \<Rightarrow> None | Inr r \<Rightarrow> r)"

text \<open>
  \<^verbatim>\<open>get_unreal_editor_exe\<close>; \<^verbatim>\<open>Path(sys.executable)\<close> raises on \<^verbatim>\<open>None\<close>,
  \<^verbatim>\<open>sys.argv[0]\<close> raises on an empty list, and what \<^verbatim>\<open>resolve\<close> raises is passed on.
\<close>

definition get_unreal_editor_exe :: "host \<Rightarrow> exn + path" where
  "get_unreal_editor_exe h =
     (case sys_executable h of
        None \<Rightarrow> Inl TypeError
      | Some t \<Rightarrow>
          (let exe = path_of h t in
           if startswith (lower (name exe)) ''unrealeditor'' then Inr exe
           else (case sys_argv h of
                   [] \<Rightarrow> Inl IndexError
                 | a # _ \<Rightarrow> resolve h (path_of h a))))"

subsection \<open>State, logging and child processes\<close>

text \<open>
  The host log (\<^verbatim>\<open>unreal.log\<close>, \<^verbatim>\<open>unreal.log_warning\<close>, \<^verbatim>\<open>unreal.log_error\<close>) and the
  commands handed to \<^verbatim>\<open>subprocess\<close>, whether the process could be started or not. The
  pictographs that open some messages are left out of the texts, and the text of an
  exception is abbreviated to the name of its class.
\<close>

datatype level = Info | Warning | Error

record state =
  mach :: machine
  logged :: "(level \<times> string) list"
  spawned :: "command list"

definition unreal_log :: "string \<Rightarrow> state \<Rightarrow> state" where
  "unreal_log msg s = s\<lparr>logged := logged s @ [(Info, msg)]\<rparr>"

definition unreal_log_warning :: "string \<Rightarrow> state \<Rightarrow> state" where
  "unreal_log_warning msg s = s\<lparr>logged := logged s @ [(Warning, msg)]\<rparr>"

definition unreal_log_error :: "string \<Rightarrow> state \<Rightarrow> state" where
  "unreal_log_error msg s = s\<lparr>logged := logged s @ [(Error, msg)]\<rparr>"

fun exn_str :: "exn \<Rightarrow> string" where
  "exn_str IndexError = ''IndexError''"
| "exn_str TypeError = ''TypeError''"
| "exn_str OSError = ''OSError''"
| "exn_str (CalledProcessError rc) = ''CalledProcessError''"
| "exn_str UnicodeDecodeError = ''UnicodeDecodeError''"
| "exn_str ValueError = ''ValueError''"
| "exn_str RuntimeError = ''RuntimeError''"

text \<open>
  \<^verbatim>\<open>subprocess.check_call(cmd)\<close>: start the child, wait for it, raise
  \<^verbatim>\<open>CalledProcessError\<close> on a non-zero exit status; nothing is captured or decoded. A
  child that cannot be started raises \<^verbatim>\<open>OSError\<close> and leaves the machine as it was.
\<close>

definition check_call :: "host \<Rightarrow> command \<Rightarrow> state \<Rightarrow> (exn + unit) \<times> state" where
  "check_call h cmd s =
     (case child h cmd (mach s) of
        (NotStarted, m') \<Rightarrow> (Inl OSError, s\<lparr>spawned := spawned s @ [cmd]\<rparr>)
      | (Exited rc out, m') \<Rightarrow>
          (if rc = 0 then Inr () else Inl (CalledProcessError rc),
           s\<lparr>mach := m', spawned := spawned s @ [cmd]\<rparr>))"

text \<open>
  \<^verbatim>\<open>subprocess.run(cmd, capture_output=True, text=True, check=True).stdout\<close>: the
  captured output is decoded while the child is waited for, before the exit status is
  looked at, so output that is not text raises \<^verbatim>\<open>UnicodeDecodeError\<close> whatever the
  status.
\<close>

definition run :: "host \<Rightarrow> command \<Rightarrow> state \<Rightarrow> (exn + string) \<times> state" where
  "run h cmd s =
     (case child h cmd (mach s) of
        (NotStarted, m') \<Rightarrow> (Inl OSError, s\<lparr>spawned := spawned s @ [cmd]\<rparr>)
      | (Exited rc None, m') \<Rightarrow>
          (Inl UnicodeDecodeError, s\<lparr>mach := m', spawned := spawned s @ [cmd]\<rparr>)
      | (Exited rc (Some out), m') \<Rightarrow>
          (if rc = 0 then Inr out else Inl (CalledProcessError rc),
           s\<lparr>mach := m', spawned := spawned s @ [cmd]\<rparr>))"

text \<open>
  \<^verbatim>\<open>subprocess.Popen(cmd)\<close> without waiting: the child is started and left to run;
  what it does later is outside the call.
\<close>

definition popen :: "host \<Rightarrow> command \<Rightarrow> state \<Rightarrow> (exn + unit) \<times> state" where
  "popen h cmd s =
     (case fst (child h cmd (mach s)) of
        NotStarted \<Rightarrow> (Inl OSError, s\<lparr>spawned := spawned s @ [cmd]\<rparr>)
      | Exited rc out \<Rightarrow> (Inr (), s\<lparr>spawned := spawned s @ [cmd]\<rparr>))"

subsection \<open>Operations shared by both scripts\<close>

definition get_embedded_python_exe :: "host \<Rightarrow> state \<Rightarrow> (exn + path option) \<times> state" where
  "get_embedded_python_exe h s =
     (case get_unreal_editor_exe h of
        Inl e \<Rightarrow> (Inl e, s)
      | Inr editor_exe \<Rightarrow>
          (case guess_embedded_python_exe_from_editor h (mach s) editor_exe of
             Some py \<Rightarrow>
               (case exists (mach s) py of
                  Inl e \<Rightarrow> (Inl e, s)
                | Inr b \<Rightarrow>
                    if b then (Inr (Some py), s)
                    else (Inr None,
                          unreal_log_warning ''Could not resolve embedded Python automatically.'' s))
           | None \<Rightarrow>
               (Inr None, unreal_log_warning ''Could not resolve embedded Python automatically.'' s)))"

definition open_python_folder_in_explorer :: "host \<Rightarrow> state \<Rightarrow> (exn + unit) \<times> state" where
  "open_python_folder_in_explorer h s =
     (case get_embedded_python_exe h s of
        (Inl e, s1) \<Rightarrow> (Inl e, s1)
      | (Inr None, s1) \<Rightarrow> (Inr (), unreal_log_error ''No embedded Python found.'' s1)
      | (Inr (Some py), s1) \<Rightarrow>
          (let folder = parent py;
               s2 = unreal_log (''Python folder: '' @ str_of h folder) s1;
               s3 = unreal_log (''Opening: '' @ str_of h folder) s2 in
           if startswith (sys_platform h) ''win'' then
             popen h (Command [''explorer'', str_of h folder] None) s3
           else if sys_platform h = ''darwin'' then
             popen h (Command [''open'', str_of h folder] None) s3
           else
             popen h (Command [''xdg-open'', str_of h folder] None) s3))"

definition open_cmd_at_python :: "host \<Rightarrow> state \<Rightarrow> (exn + unit) \<times> state" where
  "open_cmd_at_python h s =
     (case get_embedded_python_exe h s of
        (Inl e, s1) \<Rightarrow> (Inl e, s1)
      | (Inr None, s1) \<Rightarrow> (Inr (), unreal_log_error ''No embedded Python found.'' s1)
      | (Inr (Some py), s1) \<Rightarrow>
          (let folder = parent py;
               s2 = unreal_log (''Python folder: '' @ str_of h folder) s1;
               s3 = unreal_log (''Opening CMD at: '' @ str_of h folder) s2 in
           if startswith (sys_platform h) ''win'' then
             popen h (Command [''cmd.exe''] (Some (str_of h folder))) s3
           else
             (Inr (), unreal_log_warning ''CMD helper is Windows-only.'' s3)))"

subsection \<open>The installer\<close>

text \<open>
  The command line of \<^verbatim>\<open>pip_install_into_engine_sitepackages\<close>; \<^verbatim>\<open>if extra_args\<close>
  is false for \<^verbatim>\<open>None\<close> and for the empty list.
\<close>

definition install_cmd :: "host \<Rightarrow> path \<Rightarrow> string \<Rightarrow> string list option \<Rightarrow> string list" where
  "install_cmd h py package extra_args =
     (let cmd = [str_of h py, ''-m'', ''pip'', ''install'', ''--no-warn-script-location'', ''PySide6'']
      in case extra_args of
           None \<Rightarrow> cmd
         | Some xs \<Rightarrow> if xs = [] then cmd else cmd @ xs)"

definition pip_install_into_engine_sitepackages ::
  "host \<Rightarrow> string \<Rightarrow> string list option \<Rightarrow> state \<Rightarrow> (exn + bool) \<times> state" where
  "pip_install_into_engine_sitepackages h package extra_args s =
     (case get_embedded_python_exe h s of
        (Inl e, s1) \<Rightarrow> (Inl e, s1)
      | (Inr None, s1) \<Rightarrow> (Inr False, unreal_log_error ''No embedded Python found.'' s1)
      | (Inr (Some py), s1) \<Rightarrow>
          (let cmd = install_cmd h py package extra_args;
               s2 = unreal_log (''Running: '' @ join_spaces cmd) s1 in
           case check_call h (Command cmd None) s2 of
             (Inr u, s3) \<Rightarrow> (Inr True, unreal_log ''Installed into Engine Python site-packages.'' s3)
           | (Inl (CalledProcessError rc), s3) \<Rightarrow>
               (Inr False, unreal_log_error (''pip failed: '' @ exn_str (CalledProcessError rc)) s3)
           | (Inl e, s3) \<Rightarrow> (Inl e, s3)))"

definition ensure_pyside2 :: "host \<Rightarrow> state \<Rightarrow> (exn + bool) \<times> state" where
  "ensure_pyside2 h s =
     (case find_spec (mach s) ''PySide6'' of
        Inl e \<Rightarrow> (Inl e, s)
      | Inr found \<Rightarrow>
          if found then (Inr True, unreal_log ''PySide6 already available.'' s)
          else pip_install_into_engine_sitepackages h ''PySide6'' None
                 (unreal_log_warning ''PySide6 not found. Attempting installation...'' s))"

subsection \<open>The uninstaller\<close>

definition uninstall_cmd :: "host \<Rightarrow> path \<Rightarrow> string \<Rightarrow> string list option \<Rightarrow> string list" where
  "uninstall_cmd h py package extra_args =
     (let cmd = [str_of h py, ''-m'', ''pip'', ''uninstall'', ''--yes'', package]
      in case extra_args of
           None \<Rightarrow> cmd
         | Some xs \<Rightarrow> if xs = [] then cmd else cmd @ xs)"

definition pip_uninstall_from_engine_sitepackages ::
  "host \<Rightarrow> string \<Rightarrow> string list option \<Rightarrow> state \<Rightarrow> (exn + bool) \<times> state" where
  "pip_uninstall_from_engine_sitepackages h package extra_args s =
     (case get_embedded_python_exe h s of
        (Inl e, s1) \<Rightarrow> (Inl e, s1)
      | (Inr None, s1) \<Rightarrow> (Inr False, unreal_log_error ''No embedded Python found.'' s1)
      | (Inr (Some py), s1) \<Rightarrow>
          (let cmd = uninstall_cmd h py package extra_args;
               s2 = unreal_log (''Running: '' @ join_spaces cmd) s1 in
           case check_call h (Command cmd None) s2 of
             (Inr u, s3) \<Rightarrow>
               (Inr True,
                unreal_log (''Successfully uninstalled '' @ package @ '' from Engine Python site-packages.'') s3)
           | (Inl (CalledProcessError rc), s3) \<Rightarrow>
               (Inr False, unreal_log_error (''pip uninstall failed: '' @ exn_str (CalledProcessError rc)) s3)
           | (Inl e, s3) \<Rightarrow> (Inl e, s3)))"

text \<open>
  \<^verbatim>\<open>check_pyside6_installed\<close> only asks the import system; the state it returns is
  the state it was given.
\<close>

definition check_pyside6_installed :: "state \<Rightarrow> (exn + bool) \<times> state" where
  "check_pyside6_installed s =
     (case find_spec (mach s) ''PySide6'' of
        Inl e \<Rightarrow> (Inl e, s)
      | Inr found \<Rightarrow> (Inr (if found then True else False), s))"

definition get_pyside6_installation_info :: "host \<Rightarrow> state \<Rightarrow> (exn + string option) \<times> state" where
  "get_pyside6_installation_info h s =
     (case get_embedded_python_exe h s of
        (Inl e, s1) \<Rightarrow> (Inl e, s1)
      | (Inr None, s1) \<Rightarrow> (Inr None, unreal_log_error ''No embedded Python found.'' s1)
      | (Inr (Some py), s1) \<Rightarrow>
          (case run h (Command [str_of h py, ''-m'', ''pip'', ''show'', ''PySide6''] None) s1 of
             (Inr out, s2) \<Rightarrow> (Inr (Some out), s2)
           | (Inl (CalledProcessError rc), s2) \<Rightarrow> (Inr None, s2)
           | (Inl e, s2) \<Rightarrow> (Inl e, s2)))"

text \<open>
  What \<^verbatim>\<open>uninstall_pyside6\<close> logs between the query and the removal; \<^verbatim>\<open>if info\<close> is
  false for \<^verbatim>\<open>None\<close> and for the empty text.
\<close>

definition announce :: "string option \<Rightarrow> state \<Rightarrow> state" where
  "announce info s1 =
     (let s2 = (case info of
                  None \<Rightarrow> s1
                | Some t \<Rightarrow>
                    if t = [] then s1
                    else unreal_log t (unreal_log ''Current PySide6 installation info:'' s1))
      in unreal_log_warning ''Attempting to uninstall PySide6...'' s2)"

definition uninstall_pyside6 :: "host \<Rightarrow> state \<Rightarrow> (exn + bool) \<times> state" where
  "uninstall_pyside6 h s =
     (case check_pyside6_installed s of
        (Inl e, s0) \<Rightarrow> (Inl e, s0)
      | (Inr installed, s0) \<Rightarrow>
          if \<not> installed then
            (Inr False, unreal_log ''PySide6 is not installed in the engine's Python environment.'' s0)
          else
            (case get_pyside6_installation_info h s0 of
               (Inl e, s1) \<Rightarrow> (Inl e, s1)
             | (Inr info, s1) \<Rightarrow>
                 (case pip_uninstall_from_engine_sitepackages h ''PySide6'' None (announce info s1) of
                    (Inl e, s4) \<Rightarrow> (Inl e, s4)
                  | (Inr success, s4) \<Rightarrow>
                      if success then
                        (case check_pyside6_installed s4 of
                           (Inl e, s5) \<Rightarrow> (Inl e, s5)
                         | (Inr still, s5) \<Rightarrow>
                             if \<not> still then
                               (Inr True, unreal_log ''PySide6 successfully uninstalled and verified.'' s5)
                             else
                               (Inr False,
                                unreal_log_warning
                                  ''Uninstall command completed but PySide6 still appears to be available.''
                                  s5))
                      else (Inr False, unreal_log_error ''Failed to uninstall PySide6.'' s4))))"

definition list_installed_packages :: "host \<Rightarrow> state \<Rightarrow> (exn + unit) \<times> state" where
  "list_installed_packages h s =
     (case get_embedded_python_exe h s of
        (Inl e, s1) \<Rightarrow> (Inl e, s1)
      | (Inr None, s1) \<Rightarrow> (Inr (), unreal_log_error ''No embedded Python found.'' s1)
      | (Inr (Some py), s1) \<Rightarrow>
          (case run h (Command [str_of h py, ''-m'', ''pip'', ''list''] None)
                  (unreal_log ''Packages installed in engine Python:'' s1) of
             (Inr out, s2) \<Rightarrow> (Inr (), unreal_log out s2)
           | (Inl (CalledProcessError rc), s2) \<Rightarrow>
               (Inr (), unreal_log_error (''Failed to list packages: '' @ exn_str (CalledProcessError rc)) s2)
           | (Inl e, s2) \<Rightarrow> (Inl e, s2)))"

subsection \<open>Sweeping leftovers out of site-packages\<close>

text \<open>\<^verbatim>\<open>os.scandir(d)\<close>: the entries directly in \<open>d\<close>, in the order of the table.\<close>

definition children :: "machine \<Rightarrow> path \<Rightarrow> path list" where
  "children m d = filter (\<lambda>q. parts q \<noteq> [] \<and> parent q = d) (map fst (files m))"

text \<open>
  The operating system refuses to remove an entry that is locked or that lies beneath a
  directory that cannot be searched.
\<close>

definition refused :: "machine \<Rightarrow> path \<Rightarrow> bool" where
  "refused m q = (q \<in> set (locked m) \<or> list_ex (\<lambda>d. beneath d q) (unsearchable m))"

text \<open>
  \<^verbatim>\<open>Path.unlink()\<close> removes a regular file and \<^verbatim>\<open>os.rmdir\<close> an empty directory; both
  raise when there is no such entry or the operating system refuses.
\<close>

definition unlink :: "path \<Rightarrow> machine \<Rightarrow> (exn + unit) \<times> machine" where
  "unlink p m =
     (case map_of (files m) p of
        Some (File x) \<Rightarrow>
          if refused m p then (Inl OSError, m)
          else (Inr (), m\<lparr>files := filter (\<lambda>e. fst e \<noteq> p) (files m)\<rparr>)
      | _ \<Rightarrow> (Inl OSError, m))"

definition rmdir :: "path \<Rightarrow> machine \<Rightarrow> (exn + unit) \<times> machine" where
  "rmdir p m =
     (if map_of (files m) p = Some Dir \<and> \<not> refused m p \<and> children m p = []
      then (Inr (), m\<lparr>files := filter (\<lambda>e. fst e \<noteq> p) (files m)\<rparr>)
      else (Inl OSError, m))"

text \<open>
  \<^verbatim>\<open>shutil.rmtree(p)\<close> scans \<open>p\<close>, deals with each entry in turn (a directory by
  descending into it, anything else by unlinking it) and removes \<open>p\<close> itself last.
  \<open>walk m p\<close> is the order in which the entries come up for removal. The recursion
  goes one level down at each step, so it ends at the deepest entry of the table.
\<close>

function walk :: "machine \<Rightarrow> path \<Rightarrow> path list" where
  "walk m p =
     concat (map (\<lambda>c. if map_of (files m) c = Some Dir then walk m c else [c]) (children m p)) @ [p]"
  by pat_completeness auto

termination
proof (relation "measure (\<lambda>(m, p).
          Suc (Max (insert 0 ((\<lambda>e. length (parts (fst e))) ` set (files m)))) - length (parts p))")
  show "wf (measure (\<lambda>(m, p).
          Suc (Max (insert 0 ((\<lambda>e. length (parts (fst e))) ` set (files m)))) - length (parts p)))"
    by simp
next
  fix m :: machine and p c :: path
  assume c: "c \<in> set (children m p)"
  let ?D = "insert 0 ((\<lambda>e. length (parts (fst e))) ` set (files m))"
  from c obtain n where "(c, n) \<in> set (files m)" and ne: "parts c \<noteq> []" and pc: "parent c = p"
    by (auto simp: children_def)
  then have "length (parts c) \<in> ?D" by force
  then have "length (parts c) \<le> Max ?D" by (intro Max_ge) simp_all
  moreover from ne pc have "length (parts c) = Suc (length (parts p))"
    by (auto simp: parent_def)
  ultimately show "((m, c), (m, p)) \<in> measure (\<lambda>(m, p). Suc (Max (insert 0 ((\<lambda>e. length (parts (fst e))) ` set (files m)))) - length (parts p))"
    by simp
qed

declare walk.simps [simp del]

text \<open>
  The removals in that order, stopping with its exception at the first one that fails:
  what was removed before stays removed, and a directory goes only after its contents.
\<close>

fun remove_in_order :: "path list \<Rightarrow> machine \<Rightarrow> (exn + unit) \<times> machine" where
  "remove_in_order [] m = (Inr (), m)"
| "remove_in_order (q # qs) m =
     (case (if map_of (files m) q = Some Dir then rmdir q m else unlink q m) of
        (Inl e, m') \<Rightarrow> (Inl e, m')
      | (Inr u, m') \<Rightarrow> remove_in_order qs m')"

definition rmtree :: "path \<Rightarrow> machine \<Rightarrow> (exn + unit) \<times> machine" where
  "rmtree p m =
     (if map_of (files m) p = Some Dir then remove_in_order (walk m p) m else (Inl OSError, m))"

definition patterns :: "string list" where
  "patterns = [''PySide6*'', ''shiboken6*'', ''*pyside6*'']"

text \<open>
  \<^verbatim>\<open>d.glob(pat)\<close> for a pattern of one component: the scan of \<open>d\<close> gives its entries,
  and those whose name matches are the hits. The status of \<open>d\<close> itself is taken to be
  readable (it is the directory an interpreter beneath the same prefix has just
  reported); the status of a hit is read later, inside the loop over the hits.
\<close>

definition path_glob :: "host \<Rightarrow> machine \<Rightarrow> path \<Rightarrow> string \<Rightarrow> path list" where
  "path_glob h m d pat = filter (\<lambda>q. name_matches h pat (name q)) (children m d)"

text \<open>
  The body of the loop over \<^verbatim>\<open>pyside_paths\<close>, with its \<^verbatim>\<open>except Exception\<close>, which
  also catches what \<^verbatim>\<open>path.is_dir()\<close> raises.
\<close>

definition remove_path :: "host \<Rightarrow> path \<Rightarrow> state \<Rightarrow> state" where
  "remove_path h p s0 =
     (let s = unreal_log (''  - '' @ str_of h p) s0 in
      case is_dir (mach s) p of
        Inl e \<Rightarrow> unreal_log_warning (''  Could not remove '' @ str_of h p @ '': '' @ exn_str e) s
      | Inr d \<Rightarrow>
          if d then
            (case rmtree p (mach s) of
               (Inr u, m') \<Rightarrow> unreal_log (''  Removed directory: '' @ str_of h p) (s\<lparr>mach := m'\<rparr>)
             | (Inl e, m') \<Rightarrow>
                 unreal_log_warning (''  Could not remove '' @ str_of h p @ '': '' @ exn_str e)
                   (s\<lparr>mach := m'\<rparr>))
          else
            (case unlink p (mach s) of
               (Inr u, m') \<Rightarrow> unreal_log (''  Removed file: '' @ str_of h p) (s\<lparr>mach := m'\<rparr>)
             | (Inl e, m') \<Rightarrow>
                 unreal_log_warning (''  Could not remove '' @ str_of h p @ '': '' @ exn_str e)
                   (s\<lparr>mach := m'\<rparr>)))"

fun remove_paths :: "host \<Rightarrow> path list \<Rightarrow> state \<Rightarrow> state" where
  "remove_paths h [] s = s"
| "remove_paths h (p # ps) s = remove_paths h ps (remove_path h p s)"

definition site_query :: "host \<Rightarrow> path \<Rightarrow> command" where
  "site_query h py = Command [str_of h py, ''-c'', ''import site; print(site.getsitepackages()[0])''] None"

definition pyside_paths :: "host \<Rightarrow> machine \<Rightarrow> path \<Rightarrow> path list" where
  "pyside_paths h m site_packages = concat (map (path_glob h m site_packages) patterns)"

definition cleanup_pyside6_cache :: "host \<Rightarrow> state \<Rightarrow> (exn + bool) \<times> state" where
  "cleanup_pyside6_cache h s =
     (case get_embedded_python_exe h s of
        (Inl e, s1) \<Rightarrow> (Inl e, s1)
      | (Inr None, s1) \<Rightarrow> (Inr False, unreal_log_error ''No embedded Python found.'' s1)
      | (Inr (Some py), s1) \<Rightarrow>
          (case run h (site_query h py) s1 of
             (Inr out, s2) \<Rightarrow>
               (let site_packages = path_of h (strip out);
                    found = pyside_paths h (mach s2) site_packages in
                if found \<noteq> [] then
                  (Inr True,
                   remove_paths h found (unreal_log ''Found potential PySide6 remnants:'' s2))
                else (Inr True, unreal_log ''No PySide6 remnants found.'' s2))
           | (Inl (CalledProcessError rc), s2) \<Rightarrow>
               (Inr False,
                unreal_log_error
                  (''Failed to get site-packages directory: '' @ exn_str (CalledProcessError rc)) s2)
           | (Inl e, s2) \<Rightarrow> (Inl e, s2)))"

subsection \<open>An example installation\<close>

text \<open>
  A Linux host with the engine under \<^verbatim>\<open>/UE/Engine\<close>, used to evaluate the operations
  on concrete inputs. Paths are parsed and printed the POSIX way.
\<close>

fun split_on :: "char \<Rightarrow> string \<Rightarrow> string list" where
  "split_on c [] = [[]]"
| "split_on c (x # xs) =
     (if x = c then [] # split_on c xs
      else (case split_on c xs of [] \<Rightarrow> [[x]] | w # ws \<Rightarrow> (x # w) # ws))"

definition posix_path :: "string \<Rightarrow> path" where
  "posix_path t =
     Path (if startswith t ''/'' then ''/'' else [])
          (filter (\<lambda>c. c \<noteq> [] \<and> c \<noteq> ''.'') (split_on (CHR ''/'') t))"

fun join_with :: "char \<Rightarrow> string list \<Rightarrow> string" where
  "join_with sep [] = []"
| "join_with sep [x] = x"
| "join_with sep (x # y # ys) = x @ [sep] @ join_with sep (y # ys)"

definition posix_str :: "path \<Rightarrow> string" where
  "posix_str p =
     (if anchor p = [] \<and> parts p = [] then ''.'' else anchor p @ join_with (CHR ''/'') (parts p))"

definition ex_thirdparty :: path where
  "ex_thirdparty = Path ''/'' [''UE'', ''Engine'', ''Binaries'', ''ThirdParty'']"

definition ex_editor :: path where
  "ex_editor = Path ''/'' [''UE'', ''Engine'', ''Binaries'', ''Linux'', ''UnrealEditor'']"

definition ex_python :: path where
  "ex_python = Path ''/'' [''UE'', ''Engine'', ''Binaries'', ''ThirdParty'', ''Python3'', ''Linux'', ''bin'', ''python3'']"

definition ex_alt_python :: path where
  "ex_alt_python = Path ''/'' [''UE'', ''Engine'', ''Binaries'', ''ThirdParty'', ''Python39'', ''python3.9'']"

definition ex_site :: path where
  "ex_site = Path ''/'' [''UE'', ''Engine'', ''lib'', ''site-packages'']"

text \<open>
  The child processes of the example: the site-packages query prints the directory,
  \<^verbatim>\<open>pip uninstall\<close> makes the package unresolvable, \<^verbatim>\<open>pip install\<close> makes it resolvable,
  \<^verbatim>\<open>pip show\<close> prints a line; all exit with status 0.
\<close>

definition ex_child :: "command \<Rightarrow> machine \<Rightarrow> proc_outcome \<times> machine" where
  "ex_child cmd m =
     (if ''-c'' \<in> set (args cmd) then (Exited 0 (Some (''/UE/Engine/lib/site-packages'' @ [CHR 0x0A])), m)
      else if ''uninstall'' \<in> set (args cmd) then
        (Exited 0 (Some []), m\<lparr>modules := filter (\<lambda>n. n \<noteq> ''PySide6'') (modules m)\<rparr>)
      else if ''install'' \<in> set (args cmd) then
        (Exited 0 (Some []), m\<lparr>modules := ''PySide6'' # modules m\<rparr>)
      else if ''show'' \<in> set (args cmd) then (Exited 0 (Some ''Name: PySide6''), m)
      else (Exited 0 (Some []), m))"

text \<open>
  \<^verbatim>\<open>glob.glob\<close> on the example host, for the one pattern the locator asks there: the
  entries of the table beneath a \<^verbatim>\<open>Python*\<close> directory of the ThirdParty root whose name
  begins with \<^verbatim>\<open>python\<close>.
\<close>

definition ex_glob :: "string \<Rightarrow> machine \<Rightarrow> string list" where
  "ex_glob pattern m =
     (if pattern = ''/UE/Engine/Binaries/ThirdParty/Python*/**/python*'' then
        map posix_str
          (filter (\<lambda>q. under ex_thirdparty q \<and> 6 \<le> length (parts q) \<and>
                        startswith (parts q ! 4) ''Python'' \<and> startswith (last (parts q)) ''python'')
             (map fst (files m)))
      else [])"

definition ex_host :: host where
  "ex_host =
     \<lparr>sys_platform = ''linux'',
      sys_executable = Some ''/UE/Engine/Binaries/Linux/UnrealEditor'',
      sys_argv = [''UE_uninstallPyside6.py''],
      path_of = posix_path,
      str_of = posix_str,
      resolve = Inr,
      glob_glob = ex_glob,
      child = ex_child\<rparr>"

text \<open>
  Site-packages holds the package (one of its libraries is in use and cannot be
  deleted), its binding generator, a leftover text file and an unrelated package.
\<close>

definition ex_machine :: machine where
  "ex_machine =
     \<lparr>files =
        [(ex_python, File True),
         (ex_site, Dir),
         (joinpath ex_site ''PySide6'', Dir),
         (joinpath (joinpath ex_site ''PySide6'') ''__init__.py'', File False),
         (joinpath (joinpath ex_site ''PySide6'') ''QtCore.so'', File False),
         (joinpath ex_site ''shiboken6'', Dir),
         (joinpath (joinpath ex_site ''shiboken6'') ''Shiboken.so'', File False),
         (joinpath ex_site ''my_pyside6_notes.txt'', File False),
         (joinpath ex_site ''numpy'', Dir),
         (joinpath (joinpath ex_site ''numpy'') ''version.py'', File False)],
      locked = [joinpath (joinpath ex_site ''PySide6'') ''QtCore.so''],
      unsearchable = [],
      modules = [''PySide6'', ''numpy''],
      specless = []\<rparr>"

definition ex_state :: state where
  "ex_state = \<lparr>mach = ex_machine, logged = [], spawned = []\<rparr>"

text \<open>
  Hosts on which \<^verbatim>\<open>pip\<close> fails, on which no child process can be started, and on which
  the children write bytes that are not text.
\<close>

definition ex_host_failing :: host where
  "ex_host_failing = ex_host\<lparr>child := (\<lambda>cmd m. (Exited 1 (Some []), m))\<rparr>"



text \<open>
  Hosts whose Python does not report the editor as its executable: one with the
  command line of the editor in \<^verbatim>\<open>sys.argv\<close>, one with an empty \<^verbatim>\<open>sys.argv\<close>.
\<close>

definition ex_host_python :: host where
  "ex_host_python =
     ex_host\<lparr>sys_executable := Some ''/usr/bin/python3'',
             sys_argv := [''/UE/Engine/Binaries/Linux/UnrealEditor-Cmd'', ''-run'']\<rparr>"

definition ex_host_no_argv :: host where
  "ex_host_no_argv = ex_host\<lparr>sys_executable := Some ''/usr/bin/python3'', sys_argv := []\<rparr>"

text \<open>
  A machine whose interpreter sits in a non-standard place; the same machine with an
  empty \<^verbatim>\<open>Python3\<close> directory that cannot be searched; one without any interpreter; a
  state in which the package is not resolvable, and one in which \<^verbatim>\<open>sys.modules\<close> holds
  it without a spec.
\<close>

definition ex_machine_alt :: machine where
  "ex_machine_alt =
     \<lparr>files = [(joinpath (joinpath ex_thirdparty ''Python39'') ''README'', File False),
               (ex_alt_python, File True)],
      locked = [], unsearchable = [], modules = [], specless = []\<rparr>"

definition ex_machine_closed :: machine where
  "ex_machine_closed =
     \<lparr>files = [(joinpath ex_thirdparty ''Python3'', Dir),
               (joinpath (joinpath ex_thirdparty ''Python39'') ''README'', File False),
               (ex_alt_python, File True)],
      locked = [], unsearchable = [joinpath ex_thirdparty ''Python3''], modules = [], specless = []\<rparr>"

definition ex_machine_bare :: machine where
  "ex_machine_bare = \<lparr>files = [], locked = [], unsearchable = [], modules = [], specless = []\<rparr>"

definition ex_state_bare :: state where
  "ex_state_bare = \<lparr>mach = ex_machine_bare, logged = [], spawned = []\<rparr>"

definition ex_state_absent :: state where
  "ex_state_absent = \<lparr>mach = ex_machine\<lparr>modules := [''numpy'']\<rparr>, logged = [], spawned = []\<rparr>"

definition ex_state_specless :: state where
  "ex_state_specless = \<lparr>mach = ex_machine\<lparr>specless := [''PySide6'']\<rparr>, logged = [], spawned = []\<rparr>"

text \<open>
  A host on which \<^verbatim>\<open>pip uninstall\<close> exits with 0 and changes nothing, and a state in
  which the operating system refuses every removal.
\<close>

definition ex_host_stubborn :: host where
  "ex_host_stubborn =
     ex_host\<lparr>child := (\<lambda>cmd m. if ''-c'' \<in> set (args cmd) then ex_child cmd m
                               else (Exited 0 (Some []), m))\<rparr>"


subsection \<open>An example installation on Windows\<close>

text \<open>
  The engine under \<^verbatim>\<open>C:\UE\Engine\<close>. Paths are written with a drive and backslashes.
  On Windows the first entry of \<^verbatim>\<open>site.getsitepackages()\<close> is the prefix of the
  interpreter (the directory of \<^verbatim>\<open>python.exe\<close>), and \<^verbatim>\<open>Lib\site-packages\<close> beneath it is
  the second; the query of cleanup therefore prints the prefix.
\<close>

definition win_path :: "string \<Rightarrow> path" where
  "win_path t =
     (if 3 \<le> length t \<and> t ! 1 = CHR '':'' \<and> t ! 2 = CHR 0x5C
      then Path (take 3 t) (filter (\<lambda>c. c \<noteq> []) (split_on (CHR 0x5C) (drop 3 t)))
      else Path [] (filter (\<lambda>c. c \<noteq> []) (split_on (CHR 0x5C) t)))"

definition win_str :: "path \<Rightarrow> string" where
  "win_str p =
     (if anchor p = [] \<and> parts p = [] then ''.'' else anchor p @ join_with (CHR 0x5C) (parts p))"

definition ex_win_prefix :: path where
  "ex_win_prefix =
     Path [CHR ''C'', CHR '':'', CHR 0x5C] [''UE'', ''Engine'', ''Binaries'', ''ThirdParty'', ''Python3'', ''Win64'']"

definition ex_win_python :: path where
  "ex_win_python = joinpath ex_win_prefix ''python.exe''"

definition ex_win_site :: path where
  "ex_win_site = joinpath (joinpath ex_win_prefix ''Lib'') ''site-packages''"

definition ex_win_child :: "command \<Rightarrow> machine \<Rightarrow> proc_outcome \<times> machine" where
  "ex_win_child cmd m =
     (if ''-c'' \<in> set (args cmd) then (Exited 0 (Some (win_str ex_win_prefix @ [CHR 0x0A])), m)
      else (Exited 0 (Some []), m))"

definition ex_win_host :: host where
  "ex_win_host =
     \<lparr>sys_platform = ''win32'',
      sys_executable =
        Some (win_str (Path [CHR ''C'', CHR '':'', CHR 0x5C]
                         [''UE'', ''Engine'', ''Binaries'', ''Win64'', ''UnrealEditor.exe''])),
      sys_argv = [''UE_uninstallPyside6.py''],
      path_of = win_path,
      str_of = win_str,
      resolve = Inr,
      glob_glob = (\<lambda>pattern m. []),
      child = ex_win_child\<rparr>"

text \<open>
  The package sits in \<^verbatim>\<open>Lib\site-packages\<close>; the prefix itself holds the interpreter and
  a log file that happens to have \<^verbatim>\<open>pyside6\<close> in its name.
\<close>

definition ex_win_machine :: machine where
  "ex_win_machine =
     \<lparr>files =
        [(ex_win_prefix, Dir),
         (ex_win_python, File True),
         (joinpath ex_win_prefix ''pyside6-setup.log'', File False),
         (joinpath ex_win_prefix ''Lib'', Dir),
         (ex_win_site, Dir),
         (joinpath ex_win_site ''PySide6'', Dir),
         (joinpath (joinpath ex_win_site ''PySide6'') ''QtCore.pyd'', File False),
         (joinpath ex_win_site ''shiboken6'', Dir)],
      locked = [], unsearchable = [], modules = [''PySide6''], specless = []\<rparr>"

definition ex_win_state :: state where
  "ex_win_state = \<lparr>mach = ex_win_machine, logged = [], spawned = []\<rparr>"

subsection \<open>Predicates used in the statements\<close>

text \<open>
  What an operation that gives up leaves behind: \<open>untouched\<close> when the machine is as it
  was and no command went to \<^verbatim>\<open>subprocess\<close>; \<open>aborted\<close> when, besides, the log gained just
  the warning of the lookup and the error of the operation.
\<close>

definition untouched :: "state \<Rightarrow> state \<Rightarrow> bool" where
  "untouched s s' = (mach s' = mach s \<and> spawned s' = spawned s)"

definition aborted :: "state \<Rightarrow> state \<Rightarrow> bool" where
  "aborted s s' =
     (untouched s s' \<and>
      logged s' = logged s @ [(Warning, ''Could not resolve embedded Python automatically.''),
                              (Error, ''No embedded Python found.'')])"

text \<open>
  For the sweep of cleanup: \<open>swept found q\<close> when \<open>q\<close> is one of the paths found or lies
  beneath one of them; \<open>listed m p\<close> when the file table has an entry for \<open>p\<close>.
\<close>

definition swept :: "path list \<Rightarrow> path \<Rightarrow> bool" where
  "swept found q = list_ex (\<lambda>c. under c q) found"

definition listed :: "machine \<Rightarrow> path \<Rightarrow> bool" where
  "listed m p = (p \<in> set (map fst (files m)))"

text \<open>
  \<open>drops G m m'\<close> when \<open>m'\<close> is \<open>m\<close> without the file table entries of the paths in
  \<open>G\<close>, and the same in everything else.
\<close>

definition drops :: "path list \<Rightarrow> machine \<Rightarrow> machine \<Rightarrow> bool" where
  "drops G m m' = (m' = m\<lparr>files := filter (\<lambda>e. fst e \<notin> set G) (files m)\<rparr>)"

section \<open>Properties\<close>

subsection \<open>The locator\<close>

lemma first_existing_Some:
  "(\<forall>x\<in>set pre. exists m x = Inr False) \<Longrightarrow> exists m c = Inr True \<Longrightarrow>
   first_existing m (pre @ c # post) = Inr (Some c)"
  by (induction pre) auto

lemma first_existing_raises:
  "(\<forall>x\<in>set pre. exists m x = Inr False) \<Longrightarrow> exists m c = Inl e \<Longrightarrow>
   first_existing m (pre @ c # post) = Inl e"
  by (induction pre) auto

lemma first_existing_None:
  "(\<forall>c\<in>set cs. exists m c = Inr False) \<Longrightarrow> first_existing m cs = Inr None"
  by (induction cs) auto

lemma first_existing_sound:
  "first_existing m cs = Inr (Some c) \<Longrightarrow> exists m c = Inr True \<and> c \<in> set cs"
  by (induction cs) (auto split: sum.splits if_splits)

lemma first_executable_Some:
  "(\<forall>x\<in>set pre. is_file m x = Inr False \<or> is_file m x = Inr True \<and> \<not> access_x m x) \<Longrightarrow>
   is_file m p = Inr True \<Longrightarrow> access_x m p \<Longrightarrow>
   first_executable m (pre @ p # post) = Inr (Some p)"
  by (induction pre) auto

lemma first_executable_raises:
  "(\<forall>x\<in>set pre. is_file m x = Inr False \<or> is_file m x = Inr True \<and> \<not> access_x m x) \<Longrightarrow>
   is_file m p = Inl e \<Longrightarrow> first_executable m (pre @ p # post) = Inl e"
  by (induction pre) auto

lemma first_executable_None:
  "(\<forall>p\<in>set ps. is_file m p = Inr False \<or> is_file m p = Inr True \<and> \<not> access_x m p) \<Longrightarrow>
   first_executable m ps = Inr None"
  by (induction ps) auto

lemma first_executable_sound:
  "first_executable m ps = Inr (Some p) \<Longrightarrow> is_file m p = Inr True \<and> access_x m p \<and> p \<in> set ps"
  by (induction ps) (auto split: sum.splits if_splits)

lemma is_file_exists: "is_file m p = Inr True \<Longrightarrow> exists m p = Inr True"
  by (auto simp: is_file_def exists_def split: sum.splits option.splits)

lemma guess_exists:
  "guess_embedded_python_exe_from_editor h m e = Some py \<Longrightarrow> exists m py = Inr True"
  by (auto simp: guess_embedded_python_exe_from_editor_def guess_body_def Let_def
           split: sum.splits option.splits
           dest: first_existing_sound first_executable_sound is_file_exists)

lemma under_length: "under d q \<Longrightarrow> length (parts d) \<le> length (parts q)"
proof -
  assume "under d q"
  then have "length (take (length (parts d)) (parts q)) = length (parts d)"
    by (simp add: under_def)
  then show ?thesis by simp
qed

lemma under_joinpath: "under d q \<Longrightarrow> under d (joinpath q s)"
  using under_length [of d q] by (auto simp: under_def joinpath_def)

lemma under_refl: "under d d"
  by (simp add: under_def)

lemma guess_of_body:
  "guess_body h m editor_exe = Inr r \<Longrightarrow> guess_embedded_python_exe_from_editor h m editor_exe = r"
  "guess_body h m editor_exe = Inl e \<Longrightarrow> guess_embedded_python_exe_from_editor h m editor_exe = None"
  by (simp_all add: guess_embedded_python_exe_from_editor_def)

lemma guess_body_candidate:
  "parents editor_exe 2 = Inr engine_dir \<Longrightarrow>
   first_existing m (candidates h (joinpath (joinpath engine_dir ''Binaries'') ''ThirdParty'')) = Inr (Some c) \<Longrightarrow>
   guess_body h m editor_exe = Inr (Some c)"
  by (simp add: guess_body_def)

lemma guess_body_candidate_raises:
  "parents editor_exe 2 = Inr engine_dir \<Longrightarrow>
   first_existing m (candidates h (joinpath (joinpath engine_dir ''Binaries'') ''ThirdParty'')) = Inl e \<Longrightarrow>
   guess_body h m editor_exe = Inl e"
  by (simp add: guess_body_def)

lemma guess_body_fallback:
  "parents editor_exe 2 = Inr engine_dir \<Longrightarrow>
   first_existing m (candidates h (joinpath (joinpath engine_dir ''Binaries'') ''ThirdParty'')) = Inr None \<Longrightarrow>
   guess_body h m editor_exe =
     first_executable m (hits h m (joinpath (joinpath engine_dir ''Binaries'') ''ThirdParty''))"
  by (simp add: guess_body_def)

text \<open>
  Claim C1. The locator takes the engine root three levels above the host executable
  and the ThirdParty root \<^verbatim>\<open>Binaries/ThirdParty\<close> beneath it. Its candidates are
  \<^verbatim>\<open>Python3/Win64/python.exe\<close> and then \<^verbatim>\<open>Python3/Win64/python3.exe\<close> when
  \<^verbatim>\<open>sys.platform\<close> begins with \<^verbatim>\<open>win\<close>, \<^verbatim>\<open>Python3/Mac/bin/python3\<close> when it is
  \<^verbatim>\<open>darwin\<close>, and \<^verbatim>\<open>Python3/Linux/bin/python3\<close> otherwise. It returns the first
  candidate, in that order, whose existence check answers true. When every check
  answers false it hands the text of \<^verbatim>\<open>Python*/**/python*\<close> under the ThirdParty root to
  \<^verbatim>\<open>glob.glob\<close> and returns the first hit that is a regular file and executable, and
  \<open>None\<close> when there is no such hit. It also returns \<open>None\<close> when the path of the
  host executable has no third parent, and when an existence check or a regular-file
  test raises: the candidates and hits after that one are not looked at. No exception
  leaves the locator.
\<close>

theorem locator_result:
  "(\<forall>e. parents editor_exe 2 = Inl e \<longrightarrow>
      guess_embedded_python_exe_from_editor h m editor_exe = None) \<and>
   (\<forall>engine_dir tp cs hs.
      parents editor_exe 2 = Inr engine_dir \<and>
      tp = joinpath (joinpath engine_dir ''Binaries'') ''ThirdParty'' \<and>
      cs = (if startswith (sys_platform h) ''win'' then
              [joinpath (joinpath (joinpath tp ''Python3'') ''Win64'') ''python.exe'',
               joinpath (joinpath (joinpath tp ''Python3'') ''Win64'') ''python3.exe'']
            else if sys_platform h = ''darwin'' then
              [joinpath (joinpath (joinpath (joinpath tp ''Python3'') ''Mac'') ''bin'') ''python3'']
            else
              [joinpath (joinpath (joinpath (joinpath tp ''Python3'') ''Linux'') ''bin'') ''python3'']) \<and>
      hs = map (path_of h)
             (glob_glob h (str_of h (joinpath (joinpath (joinpath tp ''Python*'') ''**'') ''python*'')) m) \<longrightarrow>
      (\<forall>pre c post.
         cs = pre @ c # post \<and> (\<forall>x\<in>set pre. exists m x = Inr False) \<and> exists m c = Inr True \<longrightarrow>
         guess_embedded_python_exe_from_editor h m editor_exe = Some c) \<and>
      (\<forall>pre c post e.
         cs = pre @ c # post \<and> (\<forall>x\<in>set pre. exists m x = Inr False) \<and> exists m c = Inl e \<longrightarrow>
         guess_embedded_python_exe_from_editor h m editor_exe = None) \<and>
      ((\<forall>c\<in>set cs. exists m c = Inr False) \<longrightarrow>
         (\<forall>pre p post.
            hs = pre @ p # post \<and>
            (\<forall>x\<in>set pre. is_file m x = Inr False \<or> is_file m x = Inr True \<and> \<not> access_x m x) \<and>
            is_file m p = Inr True \<and> access_x m p \<longrightarrow>
            guess_embedded_python_exe_from_editor h m editor_exe = Some p) \<and>
         (\<forall>pre p post e.
            hs = pre @ p # post \<and>
            (\<forall>x\<in>set pre. is_file m x = Inr False \<or> is_file m x = Inr True \<and> \<not> access_x m x) \<and>
            is_file m p = Inl e \<longrightarrow>
            guess_embedded_python_exe_from_editor h m editor_exe = None) \<and>
         ((\<forall>p\<in>set hs. is_file m p = Inr False \<or> is_file m p = Inr True \<and> \<not> access_x m p) \<longrightarrow>
            guess_embedded_python_exe_from_editor h m editor_exe = None)))"
proof (intro conjI allI impI)
  fix e
  assume "parents editor_exe 2 = Inl e"
  then show "guess_embedded_python_exe_from_editor h m editor_exe = None"
    by (simp add: guess_embedded_python_exe_from_editor_def guess_body_def)
next
  fix engine_dir tp cs hs
  assume a: "parents editor_exe 2 = Inr engine_dir \<and>
      tp = joinpath (joinpath engine_dir ''Binaries'') ''ThirdParty'' \<and>
      cs = (if startswith (sys_platform h) ''win'' then
              [joinpath (joinpath (joinpath tp ''Python3'') ''Win64'') ''python.exe'',
               joinpath (joinpath (joinpath tp ''Python3'') ''Win64'') ''python3.exe'']
            else if sys_platform h = ''darwin'' then
              [joinpath (joinpath (joinpath (joinpath tp ''Python3'') ''Mac'') ''bin'') ''python3'']
            else
              [joinpath (joinpath (joinpath (joinpath tp ''Python3'') ''Linux'') ''bin'') ''python3'']) \<and>
      hs = map (path_of h)
             (glob_glob h (str_of h (joinpath (joinpath (joinpath tp ''Python*'') ''**'') ''python*'')) m)"
  then have p: "parents editor_exe 2 = Inr engine_dir"
    and tp: "tp = joinpath (joinpath engine_dir ''Binaries'') ''ThirdParty''"
    by simp_all
  from a have cs: "candidates h (joinpath (joinpath engine_dir ''Binaries'') ''ThirdParty'') = cs"
    by (simp add: candidates_def)
  from a have hs: "hits h m (joinpath (joinpath engine_dir ''Binaries'') ''ThirdParty'') = hs"
    by (simp add: hits_def)
  {
    fix pre c post
    assume "cs = pre @ c # post \<and> (\<forall>x\<in>set pre. exists m x = Inr False) \<and> exists m c = Inr True"
    then have "first_existing m cs = Inr (Some c)"
      by (simp add: first_existing_Some)
    then have "guess_body h m editor_exe = Inr (Some c)"
      using guess_body_candidate [OF p] cs by simp
    then show "guess_embedded_python_exe_from_editor h m editor_exe = Some c"
      by (rule guess_of_body)
  }
  {
    fix pre c post e
    assume "cs = pre @ c # post \<and> (\<forall>x\<in>set pre. exists m x = Inr False) \<and> exists m c = Inl e"
    then have "first_existing m cs = Inl e"
      by (simp add: first_existing_raises)
    then have "guess_body h m editor_exe = Inl e"
      using guess_body_candidate_raises [OF p] cs by simp
    then show "guess_embedded_python_exe_from_editor h m editor_exe = None"
      by (rule guess_of_body)
  }
  assume "\<forall>c\<in>set cs. exists m c = Inr False"
  then have "first_existing m cs = Inr None"
    by (rule first_existing_None)
  then have fb: "guess_body h m editor_exe = first_executable m hs"
    using guess_body_fallback [OF p] cs hs by simp
  {
    fix pre p post
    assume "hs = pre @ p # post \<and>
            (\<forall>x\<in>set pre. is_file m x = Inr False \<or> is_file m x = Inr True \<and> \<not> access_x m x) \<and>
            is_file m p = Inr True \<and> access_x m p"
    then have "first_executable m hs = Inr (Some p)"
      by (simp add: first_executable_Some)
    with fb have "guess_body h m editor_exe = Inr (Some p)" by simp
    then show "guess_embedded_python_exe_from_editor h m editor_exe = Some p"
      by (rule guess_of_body)
  }
  {
    fix pre p post e
    assume "hs = pre @ p # post \<and>
            (\<forall>x\<in>set pre. is_file m x = Inr False \<or> is_file m x = Inr True \<and> \<not> access_x m x) \<and>
            is_file m p = Inl e"
    then have "first_executable m hs = Inl e"
      by (simp add: first_executable_raises)
    with fb have "guess_body h m editor_exe = Inl e" by simp
    then show "guess_embedded_python_exe_from_editor h m editor_exe = None"
      by (rule guess_of_body)
  }
  assume "\<forall>p\<in>set hs. is_file m p = Inr False \<or> is_file m p = Inr True \<and> \<not> access_x m p"
  then have "first_executable m hs = Inr None"
    by (rule first_executable_None)
  with fb have "guess_body h m editor_exe = Inr None" by simp
  then show "guess_embedded_python_exe_from_editor h m editor_exe = None"
    by (rule guess_of_body)
qed

lemmas ex_paths = ex_editor_def ex_thirdparty_def ex_python_def ex_alt_python_def ex_site_def joinpath_def

lemma ex_parents: "parents ex_editor 2 = Inr (Path ''/'' [''UE'', ''Engine''])"
  by (simp add: parents_def ex_editor_def)

lemma ex_thirdparty_joined:
  "ex_thirdparty = joinpath (joinpath (Path ''/'' [''UE'', ''Engine'']) ''Binaries'') ''ThirdParty''"
  by (simp add: ex_paths)

lemma ex_candidates:
  "candidates (ex_host\<lparr>child := c\<rparr>) ex_thirdparty = [ex_python]"
  by (simp add: candidates_def ex_host_def startswith_def ex_paths)

lemma ex_pattern:
  "str_of (ex_host\<lparr>child := c\<rparr>)
     (joinpath (joinpath (joinpath ex_thirdparty ''Python*'') ''**'') ''python*'') =
     ''/UE/Engine/Binaries/ThirdParty/Python*/**/python*''"
  by (simp add: ex_host_def posix_str_def ex_paths)

lemma ex_alt_hits:
  "files m = files ex_machine_alt \<or> files m = files ex_machine_closed \<Longrightarrow>
   hits (ex_host\<lparr>child := c\<rparr>) m ex_thirdparty = [ex_alt_python]"
  unfolding hits_def ex_pattern
  by (auto simp: ex_host_def ex_glob_def ex_machine_alt_def ex_machine_closed_def under_def
      startswith_def posix_str_def posix_path_def ex_paths)

lemma ex_bare_hits: "hits (ex_host\<lparr>child := c\<rparr>) ex_machine_bare ex_thirdparty = []"
  unfolding hits_def ex_pattern
  by (simp add: ex_host_def ex_glob_def ex_machine_bare_def)

lemma ex_host_child: "ex_host\<lparr>child := ex_child\<rparr> = ex_host"
  by (simp add: ex_host_def)

text \<open>
  A counterexample to claim C1 as it was stated. The \<^verbatim>\<open>Python3\<close> directory of the
  ThirdParty root is empty and cannot be searched, so no candidate exists, and the
  existence check of the candidate raises \<^verbatim>\<open>PermissionError\<close>. The wildcard search
  would find \<^verbatim>\<open>Python39/python3.9\<close>, a regular file that is executable, but the locator
  never gets there: the exception is caught and the result is \<open>None\<close>.
\<close>

theorem candidate_check_raises_counterexample:
  "candidates ex_host ex_thirdparty = [ex_python] \<and>
   map_of (files ex_machine_closed) ex_python = None \<and>
   exists ex_machine_closed ex_python = Inl OSError \<and>
   hits ex_host ex_machine_closed ex_thirdparty = [ex_alt_python] \<and>
   is_file ex_machine_closed ex_alt_python = Inr True \<and>
   access_x ex_machine_closed ex_alt_python \<and>
   guess_embedded_python_exe_from_editor ex_host ex_machine_closed ex_editor = None"
proof -
  have 1: "candidates ex_host ex_thirdparty = [ex_python]"
    using ex_candidates [of ex_child] by (simp add: ex_host_child)
  have 2: "map_of (files ex_machine_closed) ex_python = None"
    by (simp add: ex_machine_closed_def ex_paths)
  have 3: "exists ex_machine_closed ex_python = Inl OSError"
    by (simp add: exists_def stat_def beneath_def under_def ex_machine_closed_def ex_paths)
  have 4: "hits ex_host ex_machine_closed ex_thirdparty = [ex_alt_python]"
    using ex_alt_hits [of ex_machine_closed ex_child] by (simp add: ex_host_child)
  have 5: "is_file ex_machine_closed ex_alt_python = Inr True"
    by (simp add: is_file_def stat_def beneath_def under_def ex_machine_closed_def ex_paths)
  have 6: "access_x ex_machine_closed ex_alt_python"
    by (simp add: access_x_def stat_def beneath_def under_def ex_machine_closed_def ex_paths)
  have "first_existing ex_machine_closed (candidates ex_host ex_thirdparty) = Inl OSError"
    by (simp add: 1 3)
  then have "guess_body ex_host ex_machine_closed ex_editor = Inl OSError"
    using guess_body_candidate_raises [OF ex_parents] by (simp add: ex_thirdparty_joined)
  then have 7: "guess_embedded_python_exe_from_editor ex_host ex_machine_closed ex_editor = None"
    by (rule guess_of_body)
  from 1 2 3 4 5 6 7 show ?thesis by simp
qed

text \<open>
  On the example host: the standard interpreter is found among the candidates; the one
  in a non-standard place by the wildcard search; none on an empty machine; none when
  the check of the candidate raises; and a path of one component gives \<open>None\<close>.
\<close>

theorem locator_result_witness:
  "guess_embedded_python_exe_from_editor ex_host ex_machine ex_editor = Some ex_python \<and>
   guess_embedded_python_exe_from_editor ex_host ex_machine_alt ex_editor = Some ex_alt_python \<and>
   guess_embedded_python_exe_from_editor ex_host ex_machine_bare ex_editor = None \<and>
   guess_embedded_python_exe_from_editor ex_host ex_machine_closed ex_editor = None \<and>
   guess_embedded_python_exe_from_editor ex_host ex_machine (Path ''/'' [''UnrealEditor'']) = None"
proof -
  let ?engine = "Path ''/'' [''UE'', ''Engine'']"
  let ?cs = "[] @ ex_python # []"
  have cs: "?cs =
      (if startswith (sys_platform ex_host) ''win'' then
         [joinpath (joinpath (joinpath ex_thirdparty ''Python3'') ''Win64'') ''python.exe'',
          joinpath (joinpath (joinpath ex_thirdparty ''Python3'') ''Win64'') ''python3.exe'']
       else if sys_platform ex_host = ''darwin'' then
         [joinpath (joinpath (joinpath (joinpath ex_thirdparty ''Python3'') ''Mac'') ''bin'') ''python3'']
       else
         [joinpath (joinpath (joinpath (joinpath ex_thirdparty ''Python3'') ''Linux'') ''bin'') ''python3''])"
    by (simp add: ex_host_def startswith_def ex_paths)
  have hs: "hits ex_host m ex_thirdparty =
      map (path_of ex_host)
        (glob_glob ex_host
           (str_of ex_host (joinpath (joinpath (joinpath ex_thirdparty ''Python*'') ''**'') ''python*'')) m)"
    for m by (simp add: hits_def)
  have here: "exists ex_machine ex_python = Inr True"
    by (simp add: exists_def stat_def ex_machine_def)
  have alt_none: "\<forall>c\<in>set ?cs. exists ex_machine_alt c = Inr False"
    by (simp add: exists_def stat_def ex_machine_alt_def ex_paths)
  have alt_hits: "hits ex_host ex_machine_alt ex_thirdparty = [] @ ex_alt_python # []"
    using ex_alt_hits [of ex_machine_alt ex_child] by (simp add: ex_host_child)
  have alt_ok: "is_file ex_machine_alt ex_alt_python = Inr True \<and> access_x ex_machine_alt ex_alt_python"
    by (simp add: is_file_def access_x_def stat_def ex_machine_alt_def ex_paths)
  have bare_none: "\<forall>c\<in>set ?cs. exists ex_machine_bare c = Inr False"
    by (simp add: exists_def stat_def ex_machine_bare_def)
  have bare_hits: "\<forall>p\<in>set (hits ex_host ex_machine_bare ex_thirdparty).
      is_file ex_machine_bare p = Inr False \<or>
      is_file ex_machine_bare p = Inr True \<and> \<not> access_x ex_machine_bare p"
    using ex_bare_hits [of ex_child] by (simp add: ex_host_child)
  have closed: "exists ex_machine_closed ex_python = Inl OSError"
    by (simp add: exists_def stat_def beneath_def under_def ex_machine_closed_def ex_paths)
  have short: "parents (Path ''/'' [''UnrealEditor'']) 2 = Inl IndexError"
    by (simp add: parents_def)
  note found = locator_result [of ex_editor ex_host, THEN conjunct2, rule_format,
      OF conjI [OF ex_parents conjI [OF ex_thirdparty_joined conjI [OF cs hs]]]]
  have 1: "guess_embedded_python_exe_from_editor ex_host ex_machine ex_editor = Some ex_python"
    using found [of ex_machine, THEN conjunct1, rule_format, of "[]" ex_python "[]"] here by simp
  note fallback = found [of ex_machine_alt, THEN conjunct2, THEN conjunct2, THEN mp, OF alt_none]
  have 2: "guess_embedded_python_exe_from_editor ex_host ex_machine_alt ex_editor = Some ex_alt_python"
    using fallback [THEN conjunct1, rule_format, of "[]" ex_alt_python "[]"] alt_hits alt_ok by simp
  note neither = found [of ex_machine_bare, THEN conjunct2, THEN conjunct2, THEN mp, OF bare_none]
  have 3: "guess_embedded_python_exe_from_editor ex_host ex_machine_bare ex_editor = None"
    using neither [THEN conjunct2, THEN conjunct2, THEN mp, OF bare_hits] .
  have 4: "guess_embedded_python_exe_from_editor ex_host ex_machine_closed ex_editor = None"
    using found [of ex_machine_closed, THEN conjunct2, THEN conjunct1, rule_format,
        of "[]" ex_python "[]" OSError] closed by simp
  have 5: "guess_embedded_python_exe_from_editor ex_host ex_machine (Path ''/'' [''UnrealEditor'']) = None"
    using locator_result [of "Path ''/'' [''UnrealEditor'']" ex_host ex_machine,
        THEN conjunct1, rule_format, OF short] .
  from 1 2 3 4 5 show ?thesis by simp
qed

subsection \<open>The reference executable\<close>

lemma get_embedded_python_exe_guess:
  "get_unreal_editor_exe h = Inr exe \<Longrightarrow>
   fst (get_embedded_python_exe h s) = Inr (guess_embedded_python_exe_from_editor h (mach s) exe)"
  by (auto simp: get_embedded_python_exe_def split: option.splits sum.splits dest: guess_exists)

lemma get_embedded_python_exe_raises:
  "get_unreal_editor_exe h = Inl e \<Longrightarrow> get_embedded_python_exe h s = (Inl e, s)"
  by (simp add: get_embedded_python_exe_def)

text \<open>
  A counterexample to claim C8 as it was stated, which speaks of every process state. On
  a host whose \<^verbatim>\<open>sys.executable\<close> is a plain Python and whose \<^verbatim>\<open>sys.argv\<close> is empty
  there is no \<^verbatim>\<open>sys.argv[0]\<close> to resolve: \<^verbatim>\<open>get_unreal_editor_exe\<close> raises
  \<^verbatim>\<open>IndexError\<close>, and so does the lookup of the interpreter that calls it.
\<close>

theorem empty_argv_counterexample:
  "sys_executable ex_host_no_argv = Some ''/usr/bin/python3'' \<and>
   \<not> startswith (lower (name (path_of ex_host_no_argv ''/usr/bin/python3''))) ''unrealeditor'' \<and>
   sys_argv ex_host_no_argv = [] \<and>
   get_unreal_editor_exe ex_host_no_argv = Inl IndexError \<and>
   fst (get_embedded_python_exe ex_host_no_argv ex_state) = Inl IndexError"
proof -
  have 1: "sys_executable ex_host_no_argv = Some ''/usr/bin/python3''"
    and 3: "sys_argv ex_host_no_argv = []"
    by (simp_all add: ex_host_no_argv_def ex_host_def)
  have 2: "\<not> startswith (lower (name (path_of ex_host_no_argv ''/usr/bin/python3''))) ''unrealeditor''"
    by (simp add: ex_host_no_argv_def ex_host_def posix_path_def name_def lower_def lower_char_def
        startswith_def)
  have 4: "get_unreal_editor_exe ex_host_no_argv = Inl IndexError"
    using 2 by (simp add: get_unreal_editor_exe_def 1 3)
  from 1 2 3 4 show ?thesis
    by (simp add: get_embedded_python_exe_raises)
qed

text \<open>
  Claim C8. The reference executable is the path of \<^verbatim>\<open>sys.executable\<close> when its name,
  lowered, begins with \<^verbatim>\<open>unrealeditor\<close>. Otherwise, when \<^verbatim>\<open>sys.argv\<close> is not empty, it
  is what \<^verbatim>\<open>resolve\<close> gives for the path of \<^verbatim>\<open>sys.argv[0]\<close>, an exception that
  \<^verbatim>\<open>resolve\<close> raises included; when \<^verbatim>\<open>sys.argv\<close> is empty the function raises
  \<^verbatim>\<open>IndexError\<close>. When \<^verbatim>\<open>sys.executable\<close> is \<^verbatim>\<open>None\<close> it raises \<^verbatim>\<open>TypeError\<close>. A
  path it returns is the one the locator is run on, and an exception it raises leaves
  the lookup of the interpreter with the state untouched.
\<close>

theorem reference_executable_result:
  "(sys_executable h = None \<longrightarrow> get_unreal_editor_exe h = Inl TypeError) \<and>
   (\<forall>t. sys_executable h = Some t \<longrightarrow>
      (startswith (lower (name (path_of h t))) ''unrealeditor'' \<longrightarrow>
         get_unreal_editor_exe h = Inr (path_of h t)) \<and>
      (\<not> startswith (lower (name (path_of h t))) ''unrealeditor'' \<longrightarrow>
         (sys_argv h = [] \<longrightarrow> get_unreal_editor_exe h = Inl IndexError) \<and>
         (\<forall>a rest. sys_argv h = a # rest \<longrightarrow> get_unreal_editor_exe h = resolve h (path_of h a)))) \<and>
   (\<forall>exe. get_unreal_editor_exe h = Inr exe \<longrightarrow>
      fst (get_embedded_python_exe h s) = Inr (guess_embedded_python_exe_from_editor h (mach s) exe)) \<and>
   (\<forall>e. get_unreal_editor_exe h = Inl e \<longrightarrow> get_embedded_python_exe h s = (Inl e, s))"
  by (auto simp: get_unreal_editor_exe_def Let_def get_embedded_python_exe_guess
      get_embedded_python_exe_raises)

text \<open>
  The editor as \<^verbatim>\<open>sys.executable\<close>; a plain Python that falls back to \<^verbatim>\<open>sys.argv[0]\<close>;
  the same with a \<^verbatim>\<open>resolve\<close> that raises; an empty \<^verbatim>\<open>sys.argv\<close>; and no
  \<^verbatim>\<open>sys.executable\<close>.
\<close>

theorem reference_executable_result_witness:
  "get_unreal_editor_exe ex_host = Inr ex_editor \<and>
   get_unreal_editor_exe ex_host_python =
     Inr (Path ''/'' [''UE'', ''Engine'', ''Binaries'', ''Linux'', ''UnrealEditor-Cmd'']) \<and>
   get_unreal_editor_exe (ex_host_python\<lparr>resolve := (\<lambda>p. Inl RuntimeError)\<rparr>) = Inl RuntimeError \<and>
   get_unreal_editor_exe ex_host_no_argv = Inl IndexError \<and>
   get_unreal_editor_exe (ex_host\<lparr>sys_executable := None\<rparr>) = Inl TypeError \<and>
   fst (get_embedded_python_exe ex_host ex_state) =
     Inr (guess_embedded_python_exe_from_editor ex_host (mach ex_state) ex_editor) \<and>
   get_embedded_python_exe ex_host_no_argv ex_state = (Inl IndexError, ex_state)"
proof -
  let ?looping = "ex_host_python\<lparr>resolve := (\<lambda>p. Inl RuntimeError)\<rparr>"
  have exe: "sys_executable ex_host = Some ''/UE/Engine/Binaries/Linux/UnrealEditor''"
    by (simp add: ex_host_def)
  have ed: "path_of ex_host ''/UE/Engine/Binaries/Linux/UnrealEditor'' = ex_editor"
    by (simp add: ex_host_def posix_path_def startswith_def ex_editor_def)
  have yes: "startswith (lower (name (path_of ex_host ''/UE/Engine/Binaries/Linux/UnrealEditor''))) ''unrealeditor''"
    by (simp add: ed) (simp add: ex_editor_def name_def lower_def lower_char_def startswith_def)
  have py: "sys_executable ex_host_python = Some ''/usr/bin/python3''"
    "sys_executable ?looping = Some ''/usr/bin/python3''"
    "sys_executable ex_host_no_argv = Some ''/usr/bin/python3''"
    by (simp_all add: ex_host_python_def ex_host_no_argv_def ex_host_def)
  have no: "\<not> startswith (lower (name (path_of ex_host_python ''/usr/bin/python3''))) ''unrealeditor''"
    "\<not> startswith (lower (name (path_of ?looping ''/usr/bin/python3''))) ''unrealeditor''"
    "\<not> startswith (lower (name (path_of ex_host_no_argv ''/usr/bin/python3''))) ''unrealeditor''"
    by (simp_all add: ex_host_python_def ex_host_no_argv_def ex_host_def posix_path_def name_def
        lower_def lower_char_def startswith_def)
  have argv: "sys_argv ex_host_python = ''/UE/Engine/Binaries/Linux/UnrealEditor-Cmd'' # [''-run'']"
    "sys_argv ?looping = ''/UE/Engine/Binaries/Linux/UnrealEditor-Cmd'' # [''-run'']"
    by (simp_all add: ex_host_python_def ex_host_def)
  have empty: "sys_argv ex_host_no_argv = []"
    by (simp add: ex_host_no_argv_def)
  have res: "resolve ex_host_python (path_of ex_host_python ''/UE/Engine/Binaries/Linux/UnrealEditor-Cmd'') =
             Inr (Path ''/'' [''UE'', ''Engine'', ''Binaries'', ''Linux'', ''UnrealEditor-Cmd''])"
    by (simp add: ex_host_python_def ex_host_def posix_path_def startswith_def)
  have none: "sys_executable (ex_host\<lparr>sys_executable := None\<rparr>) = None"
    by simp
  have 1: "get_unreal_editor_exe ex_host = Inr ex_editor"
    using reference_executable_result [of ex_host ex_state, THEN conjunct2, THEN conjunct1,
        rule_format, OF exe, THEN conjunct1, THEN mp, OF yes] ed by simp
  have 2: "get_unreal_editor_exe ex_host_python =
           Inr (Path ''/'' [''UE'', ''Engine'', ''Binaries'', ''Linux'', ''UnrealEditor-Cmd''])"
    using reference_executable_result [of ex_host_python ex_state, THEN conjunct2, THEN conjunct1,
        rule_format, OF py(1), THEN conjunct2, THEN mp, OF no(1), THEN conjunct2, rule_format,
        OF argv(1)] res by simp
  have 3: "get_unreal_editor_exe ?looping = Inl RuntimeError"
    using reference_executable_result [of ?looping ex_state, THEN conjunct2, THEN conjunct1,
        rule_format, OF py(2), THEN conjunct2, THEN mp, OF no(2), THEN conjunct2, rule_format,
        OF argv(2)] by simp
  have 4: "get_unreal_editor_exe ex_host_no_argv = Inl IndexError"
    using reference_executable_result [of ex_host_no_argv ex_state, THEN conjunct2, THEN conjunct1,
        rule_format, OF py(3), THEN conjunct2, THEN mp, OF no(3), THEN conjunct1, THEN mp,
        OF empty] .
  have 5: "get_unreal_editor_exe (ex_host\<lparr>sys_executable := None\<rparr>) = Inl TypeError"
    using reference_executable_result [of "ex_host\<lparr>sys_executable := None\<rparr>" ex_state,
        THEN conjunct1, THEN mp, OF none] .
  have 6: "fst (get_embedded_python_exe ex_host ex_state) =
           Inr (guess_embedded_python_exe_from_editor ex_host (mach ex_state) ex_editor)"
    using reference_executable_result [of ex_host ex_state, THEN conjunct2, THEN conjunct2,
        THEN conjunct1, rule_format, OF 1] .
  have 7: "get_embedded_python_exe ex_host_no_argv ex_state = (Inl IndexError, ex_state)"
    using reference_executable_result [of ex_host_no_argv ex_state, THEN conjunct2, THEN conjunct2,
        THEN conjunct2, rule_format, OF 4] .
  from 1 2 3 4 5 6 7 show ?thesis by simp
qed

subsection \<open>Logging and the interpreter lookup\<close>

lemma log_fields [simp]:
  "mach (unreal_log msg s) = mach s" "spawned (unreal_log msg s) = spawned s"
  "mach (unreal_log_warning msg s) = mach s" "spawned (unreal_log_warning msg s) = spawned s"
  "mach (unreal_log_error msg s) = mach s" "spawned (unreal_log_error msg s) = spawned s"
  "logged (unreal_log msg s) = logged s @ [(Info, msg)]"
  "logged (unreal_log_warning msg s) = logged s @ [(Warning, msg)]"
  "logged (unreal_log_error msg s) = logged s @ [(Error, msg)]"
  by (simp_all add: unreal_log_def unreal_log_warning_def unreal_log_error_def)

lemma found_state:
  "fst (get_embedded_python_exe h s) = Inr (Some py) \<Longrightarrow>
   get_embedded_python_exe h s = (Inr (Some py), s)"
  by (auto simp: get_embedded_python_exe_def split: sum.splits option.splits if_splits
           dest: guess_exists)

lemma not_found_state:
  "fst (get_embedded_python_exe h s) = Inr None \<Longrightarrow>
   get_embedded_python_exe h s =
     (Inr None, unreal_log_warning ''Could not resolve embedded Python automatically.'' s)"
  by (auto simp: get_embedded_python_exe_def split: sum.splits option.splits if_splits
           dest: guess_exists)

lemma lookup_raises:
  "fst (get_embedded_python_exe h s) = Inl e \<Longrightarrow>
   get_unreal_editor_exe h = Inl e \<and> get_embedded_python_exe h s = (Inl e, s)"
  by (auto simp: get_embedded_python_exe_def split: sum.splits option.splits if_splits
           dest: guess_exists)

lemma aborted_after_error:
  "aborted s (unreal_log_error ''No embedded Python found.''
               (unreal_log_warning ''Could not resolve embedded Python automatically.'' s))"
  by (simp add: aborted_def untouched_def)

subsection \<open>Child processes\<close>

lemma check_call_exited:
  "fst (child h cmd (mach s)) = Exited rc out \<Longrightarrow>
   fst (check_call h cmd s) = (if rc = 0 then Inr () else Inl (CalledProcessError rc))"
  by (auto simp: check_call_def split: prod.splits proc_outcome.splits)

lemma check_call_not_started:
  "fst (child h cmd (mach s)) = NotStarted \<Longrightarrow> fst (check_call h cmd s) = Inl OSError"
  by (auto simp: check_call_def split: prod.splits proc_outcome.splits)

lemma check_call_spawned: "spawned (snd (check_call h cmd s)) = spawned s @ [cmd]"
  by (auto simp: check_call_def split: prod.splits proc_outcome.splits)


lemma run_undecodable:
  "fst (child h cmd (mach s)) = Exited rc None \<Longrightarrow> fst (run h cmd s) = Inl UnicodeDecodeError"
  by (auto simp: run_def split: prod.splits proc_outcome.splits option.splits)

lemma run_not_started:
  "fst (child h cmd (mach s)) = NotStarted \<Longrightarrow> fst (run h cmd s) = Inl OSError"
  by (auto simp: run_def split: prod.splits proc_outcome.splits)

lemma run_fst:
  "fst (run h cmd s) =
     (case fst (child h cmd (mach s)) of
        NotStarted \<Rightarrow> Inl OSError
      | Exited rc None \<Rightarrow> Inl UnicodeDecodeError
      | Exited rc (Some out) \<Rightarrow> if rc = 0 then Inr out else Inl (CalledProcessError rc))"
  by (auto simp: run_def split: prod.splits proc_outcome.splits option.splits)


lemma popen_fst:
  "fst (popen h cmd s) =
     (case fst (child h cmd (mach s)) of NotStarted \<Rightarrow> Inl OSError | Exited rc out \<Rightarrow> Inr ())"
  by (auto simp: popen_def split: proc_outcome.splits)

subsection \<open>Install and uninstall\<close>

lemma pip_install_found:
  "fst (get_embedded_python_exe h s) = Inr (Some py) \<Longrightarrow>
   fst (pip_install_into_engine_sitepackages h package extra_args s) =
     (case fst (check_call h (Command (install_cmd h py package extra_args) None)
                  (unreal_log (''Running: '' @ join_spaces (install_cmd h py package extra_args)) s)) of
        Inr u \<Rightarrow> Inr True
      | Inl (CalledProcessError rc) \<Rightarrow> Inr False
      | Inl e \<Rightarrow> Inl e)"
  by (auto simp: pip_install_into_engine_sitepackages_def Let_def dest!: found_state
           split: prod.splits sum.splits exn.splits)

lemma pip_uninstall_found:
  "fst (get_embedded_python_exe h s) = Inr (Some py) \<Longrightarrow>
   fst (pip_uninstall_from_engine_sitepackages h package extra_args s) =
     (case fst (check_call h (Command (uninstall_cmd h py package extra_args) None)
                  (unreal_log (''Running: '' @ join_spaces (uninstall_cmd h py package extra_args)) s)) of
        Inr u \<Rightarrow> Inr True
      | Inl (CalledProcessError rc) \<Rightarrow> Inr False
      | Inl e \<Rightarrow> Inl e)"
  by (auto simp: pip_uninstall_from_engine_sitepackages_def Let_def dest!: found_state
           split: prod.splits sum.splits exn.splits)

text \<open>
  Claim C4. With the interpreter resolved, whenever the \<^verbatim>\<open>pip\<close> child process runs to
  an exit status, \<^verbatim>\<open>pip_install_into_engine_sitepackages\<close> and
  \<^verbatim>\<open>pip_uninstall_from_engine_sitepackages\<close> return (they do not raise) and the value
  returned is true exactly when the status is zero.
\<close>

theorem pip_result_is_exit_status:
  assumes "fst (get_embedded_python_exe h s) = Inr (Some py)"
  shows "(\<forall>rc out.
            fst (child h (Command (install_cmd h py package extra_args) None) (mach s)) = Exited rc out \<longrightarrow>
            fst (pip_install_into_engine_sitepackages h package extra_args s) = Inr (rc = 0)) \<and>
         (\<forall>rc out.
            fst (child h (Command (uninstall_cmd h py package extra_args) None) (mach s)) = Exited rc out \<longrightarrow>
            fst (pip_uninstall_from_engine_sitepackages h package extra_args s) = Inr (rc = 0))"
proof (intro conjI allI impI)
  fix rc out
  assume "fst (child h (Command (install_cmd h py package extra_args) None) (mach s)) = Exited rc out"
  then have "fst (check_call h (Command (install_cmd h py package extra_args) None)
                   (unreal_log (''Running: '' @ join_spaces (install_cmd h py package extra_args)) s)) =
             (if rc = 0 then Inr () else Inl (CalledProcessError rc))"
    by (simp add: check_call_exited)
  with assms show "fst (pip_install_into_engine_sitepackages h package extra_args s) = Inr (rc = 0)"
    by (simp add: pip_install_found)
next
  fix rc out
  assume "fst (child h (Command (uninstall_cmd h py package extra_args) None) (mach s)) = Exited rc out"
  then have "fst (check_call h (Command (uninstall_cmd h py package extra_args) None)
                   (unreal_log (''Running: '' @ join_spaces (uninstall_cmd h py package extra_args)) s)) =
             (if rc = 0 then Inr () else Inl (CalledProcessError rc))"
    by (simp add: check_call_exited)
  with assms show "fst (pip_uninstall_from_engine_sitepackages h package extra_args s) = Inr (rc = 0)"
    by (simp add: pip_uninstall_found)
qed

subsection \<open>The example installation\<close>

lemma ex_reference: "get_unreal_editor_exe (ex_host\<lparr>child := c\<rparr>) = Inr ex_editor"
  by (simp add: get_unreal_editor_exe_def ex_host_def posix_path_def startswith_def name_def
      lower_def lower_char_def ex_editor_def)

lemma ex_locate:
  "exists m ex_python = Inr True \<Longrightarrow>
   guess_embedded_python_exe_from_editor (ex_host\<lparr>child := c\<rparr>) m ex_editor = Some ex_python"
  by (simp add: guess_embedded_python_exe_from_editor_def guess_body_def ex_parents
      ex_thirdparty_joined [symmetric] ex_candidates)

lemma ex_python_exists:
  "files m = files ex_machine \<Longrightarrow> unsearchable m = [] \<Longrightarrow> exists m ex_python = Inr True"
  by (simp add: exists_def stat_def ex_machine_def)

lemma ex_found:
  "files (mach s) = files ex_machine \<Longrightarrow> unsearchable (mach s) = [] \<Longrightarrow>
   get_embedded_python_exe (ex_host\<lparr>child := c\<rparr>) s = (Inr (Some ex_python), s)"
  by (simp add: get_embedded_python_exe_def ex_reference ex_locate ex_python_exists)

lemma ex_bare_not_found:
  "fst (get_embedded_python_exe (ex_host\<lparr>child := c\<rparr>) ex_state_bare) = Inr None"
  by (simp add: get_embedded_python_exe_def ex_reference guess_embedded_python_exe_from_editor_def
      guess_body_def ex_parents ex_thirdparty_joined [symmetric] ex_candidates ex_bare_hits
      ex_state_bare_def exists_def stat_def ex_machine_bare_def
      split: option.splits)

lemma ex_python_str:
  "str_of (ex_host\<lparr>child := c\<rparr>) ex_python = ''/UE/Engine/Binaries/ThirdParty/Python3/Linux/bin/python3''"
  by (simp add: ex_host_def posix_str_def ex_python_def)

lemma ex_state_found:
  "fst (get_embedded_python_exe ex_host ex_state) = Inr (Some ex_python)"
  using ex_found [of ex_state ex_child] by (simp add: ex_host_child ex_state_def ex_machine_def)

text \<open>
  Both operations on the example host, where \<^verbatim>\<open>pip\<close> exits with 0, and on a host where
  it exits with 1.
\<close>

theorem pip_result_is_exit_status_witness:
  "fst (pip_install_into_engine_sitepackages ex_host ''PySide6'' None ex_state) = Inr True \<and>
   fst (pip_uninstall_from_engine_sitepackages ex_host ''PySide6'' None ex_state) = Inr True \<and>
   fst (pip_install_into_engine_sitepackages ex_host_failing ''PySide6'' None ex_state) = Inr False \<and>
   fst (pip_uninstall_from_engine_sitepackages ex_host_failing ''PySide6'' None ex_state) = Inr False"
proof -
  have f: "fst (get_embedded_python_exe ex_host ex_state) = Inr (Some ex_python)"
    by (rule ex_state_found)
  have g: "fst (get_embedded_python_exe ex_host_failing ex_state) = Inr (Some ex_python)"
    unfolding ex_host_failing_def by (simp add: ex_found ex_state_def ex_machine_def)
  have i: "fst (child ex_host (Command (install_cmd ex_host ex_python ''PySide6'' None) None) (mach ex_state))
           = Exited 0 (Some [])"
    by (simp add: install_cmd_def ex_host_def ex_child_def posix_str_def ex_python_def)
  have u: "fst (child ex_host (Command (uninstall_cmd ex_host ex_python ''PySide6'' None) None) (mach ex_state))
           = Exited 0 (Some [])"
    by (simp add: uninstall_cmd_def ex_host_def ex_child_def posix_str_def ex_python_def)
  have i': "fst (child ex_host_failing
                  (Command (install_cmd ex_host_failing ex_python ''PySide6'' None) None) (mach ex_state))
            = Exited 1 (Some [])"
    by (simp add: ex_host_failing_def)
  have u': "fst (child ex_host_failing
                  (Command (uninstall_cmd ex_host_failing ex_python ''PySide6'' None) None) (mach ex_state))
            = Exited 1 (Some [])"
    by (simp add: ex_host_failing_def)
  show ?thesis
    using pip_result_is_exit_status [OF f, THEN conjunct1, rule_format, OF i]
      pip_result_is_exit_status [OF f, THEN conjunct2, rule_format, OF u]
      pip_result_is_exit_status [OF g, THEN conjunct1, rule_format, OF i']
      pip_result_is_exit_status [OF g, THEN conjunct2, rule_format, OF u']
    by simp
qed

subsection \<open>A missing interpreter\<close>

text \<open>
  Claim C7. When the interpreter lookup reports \<open>None\<close>, install and uninstall return
  false, the information query returns \<open>None\<close>, the package listing and the folder and
  terminal helpers return without a value, and cleanup returns false; each leaves the
  machine as it was (the file table with it), hands no command to \<^verbatim>\<open>subprocess\<close>, and
  logs the lookup's warning and the error \<^verbatim>\<open>No embedded Python found.\<close>
\<close>

theorem not_found_aborts:
  assumes "fst (get_embedded_python_exe h s) = Inr None"
  shows "fst (pip_install_into_engine_sitepackages h package extra_args s) = Inr False \<and>
         aborted s (snd (pip_install_into_engine_sitepackages h package extra_args s)) \<and>
         fst (pip_uninstall_from_engine_sitepackages h package extra_args s) = Inr False \<and>
         aborted s (snd (pip_uninstall_from_engine_sitepackages h package extra_args s)) \<and>
         fst (get_pyside6_installation_info h s) = Inr None \<and>
         aborted s (snd (get_pyside6_installation_info h s)) \<and>
         fst (list_installed_packages h s) = Inr () \<and>
         aborted s (snd (list_installed_packages h s)) \<and>
         fst (cleanup_pyside6_cache h s) = Inr False \<and>
         aborted s (snd (cleanup_pyside6_cache h s)) \<and>
         fst (open_python_folder_in_explorer h s) = Inr () \<and>
         aborted s (snd (open_python_folder_in_explorer h s)) \<and>
         fst (open_cmd_at_python h s) = Inr () \<and>
         aborted s (snd (open_cmd_at_python h s))"
proof -
  note nf = not_found_state [OF assms]
  have "pip_install_into_engine_sitepackages h package extra_args s =
          (Inr False, unreal_log_error ''No embedded Python found.''
             (unreal_log_warning ''Could not resolve embedded Python automatically.'' s))"
    by (simp add: pip_install_into_engine_sitepackages_def nf)
  moreover have "pip_uninstall_from_engine_sitepackages h package extra_args s =
          (Inr False, unreal_log_error ''No embedded Python found.''
             (unreal_log_warning ''Could not resolve embedded Python automatically.'' s))"
    by (simp add: pip_uninstall_from_engine_sitepackages_def nf)
  moreover have "get_pyside6_installation_info h s =
          (Inr None, unreal_log_error ''No embedded Python found.''
             (unreal_log_warning ''Could not resolve embedded Python automatically.'' s))"
    by (simp add: get_pyside6_installation_info_def nf)
  moreover have "list_installed_packages h s =
          (Inr (), unreal_log_error ''No embedded Python found.''
             (unreal_log_warning ''Could not resolve embedded Python automatically.'' s))"
    by (simp add: list_installed_packages_def nf)
  moreover have "cleanup_pyside6_cache h s =
          (Inr False, unreal_log_error ''No embedded Python found.''
             (unreal_log_warning ''Could not resolve embedded Python automatically.'' s))"
    by (simp add: cleanup_pyside6_cache_def nf)
  moreover have "open_python_folder_in_explorer h s =
          (Inr (), unreal_log_error ''No embedded Python found.''
             (unreal_log_warning ''Could not resolve embedded Python automatically.'' s))"
    by (simp add: open_python_folder_in_explorer_def nf)
  moreover have "open_cmd_at_python h s =
          (Inr (), unreal_log_error ''No embedded Python found.''
             (unreal_log_warning ''Could not resolve embedded Python automatically.'' s))"
    by (simp add: open_cmd_at_python_def nf)
  ultimately show ?thesis
    by (simp add: aborted_after_error)
qed

text \<open>
  On a machine without any interpreter.
\<close>

theorem not_found_aborts_witness:
  "fst (get_embedded_python_exe ex_host ex_state_bare) = Inr None \<and>
   fst (pip_install_into_engine_sitepackages ex_host ''PySide6'' None ex_state_bare) = Inr False \<and>
   spawned (snd (pip_install_into_engine_sitepackages ex_host ''PySide6'' None ex_state_bare)) = [] \<and>
   fst (get_pyside6_installation_info ex_host ex_state_bare) = Inr None \<and>
   fst (cleanup_pyside6_cache ex_host ex_state_bare) = Inr False \<and>
   mach (snd (cleanup_pyside6_cache ex_host ex_state_bare)) = ex_machine_bare"
proof -
  have nf: "fst (get_embedded_python_exe ex_host ex_state_bare) = Inr None"
    using ex_bare_not_found [of ex_child] by (simp add: ex_host_child)
  show ?thesis
    using nf not_found_aborts [OF nf, of "''PySide6''" None]
    by (simp add: aborted_def untouched_def ex_state_bare_def)
qed

subsection \<open>The command lines\<close>

lemma install_cmd_ignores_package:
  "install_cmd h py package None =
     [str_of h py, ''-m'', ''pip'', ''install'', ''--no-warn-script-location'', ''PySide6'']"
  by (simp add: install_cmd_def)

lemma uninstall_cmd_names_package:
  "uninstall_cmd h py package extra_args =
     [str_of h py, ''-m'', ''pip'', ''uninstall'', ''--yes'', package] @
     (case extra_args of None \<Rightarrow> [] | Some xs \<Rightarrow> xs)"
  by (simp add: uninstall_cmd_def Let_def split: option.splits)

lemma pip_install_spawned:
  "fst (get_embedded_python_exe h s) = Inr (Some py) \<Longrightarrow>
   spawned (snd (pip_install_into_engine_sitepackages h package extra_args s)) =
     spawned s @ [Command (install_cmd h py package extra_args) None]"
  using check_call_spawned
    [of h "Command (install_cmd h py package extra_args) None"
        "unreal_log (''Running: '' @ join_spaces (install_cmd h py package extra_args)) s"]
  by (auto simp: pip_install_into_engine_sitepackages_def Let_def dest!: found_state
           split: prod.splits sum.splits exn.splits)

lemma pip_uninstall_spawned:
  "fst (get_embedded_python_exe h s) = Inr (Some py) \<Longrightarrow>
   spawned (snd (pip_uninstall_from_engine_sitepackages h package extra_args s)) =
     spawned s @ [Command (uninstall_cmd h py package extra_args) None]"
  using check_call_spawned
    [of h "Command (uninstall_cmd h py package extra_args) None"
        "unreal_log (''Running: '' @ join_spaces (uninstall_cmd h py package extra_args)) s"]
  by (auto simp: pip_uninstall_from_engine_sitepackages_def Let_def dest!: found_state
           split: prod.splits sum.splits exn.splits)

text \<open>
  Claim C3. The claim says that the command line names exactly the package passed in.
  \<^verbatim>\<open>pip_uninstall_from_engine_sitepackages\<close> does (\<open>uninstall_cmd_names_package\<close>),
  but \<^verbatim>\<open>pip_install_into_engine_sitepackages\<close> writes the literal \<^verbatim>\<open>"PySide6"\<close> and never
  reads its \<^verbatim>\<open>package\<close> parameter (\<open>install_cmd_ignores_package\<close>): asked on the
  example host to install \<^verbatim>\<open>numpy\<close>, it runs \<^verbatim>\<open>pip install\<close> for \<^verbatim>\<open>PySide6\<close>.
\<close>

theorem install_names_PySide6_for_numpy:
  "spawned (snd (pip_install_into_engine_sitepackages ex_host ''numpy'' None ex_state)) =
     [Command [''/UE/Engine/Binaries/ThirdParty/Python3/Linux/bin/python3'', ''-m'', ''pip'',
               ''install'', ''--no-warn-script-location'', ''PySide6''] None]"
proof -
  have "spawned (snd (pip_install_into_engine_sitepackages ex_host ''numpy'' None ex_state)) =
        spawned ex_state @ [Command (install_cmd ex_host ex_python ''numpy'' None) None]"
    by (rule pip_install_spawned [OF ex_state_found])
  moreover have "str_of ex_host ex_python = ''/UE/Engine/Binaries/ThirdParty/Python3/Linux/bin/python3''"
    using ex_python_str [of ex_child] by (simp add: ex_host_child)
  ultimately show ?thesis
    by (simp add: install_cmd_ignores_package ex_state_def)
qed

subsection \<open>Probing for the package\<close>

lemma ex_present: "find_spec (mach ex_state) ''PySide6'' = Inr True"
  by (simp add: find_spec_def ex_state_def ex_machine_def)

lemma ex_absent: "find_spec (mach ex_state_absent) ''PySide6'' = Inr False"
  by (simp add: find_spec_def ex_state_absent_def ex_machine_def)

lemma ex_specless: "find_spec (mach ex_state_specless) ''PySide6'' = Inl ValueError"
  by (simp add: find_spec_def ex_state_specless_def)

text \<open>
  A counterexample to claim C6 as it was stated, which has the probe answer false
  whenever the spec is not resolvable. When \<^verbatim>\<open>sys.modules\<close> holds \<^verbatim>\<open>PySide6\<close> with
  \<^verbatim>\<open>__spec__\<close> set to \<^verbatim>\<open>None\<close>, \<^verbatim>\<open>importlib.util.find_spec\<close> raises
  \<^verbatim>\<open>ValueError\<close>; neither script catches it, so the probe answers neither true nor
  false: the exception leaves \<^verbatim>\<open>check_pyside6_installed\<close> and \<^verbatim>\<open>ensure_pyside2\<close>.
\<close>

theorem probe_raises_counterexample:
  "''PySide6'' \<in> set (specless (mach ex_state_specless)) \<and>
   find_spec (mach ex_state_specless) ''PySide6'' = Inl ValueError \<and>
   fst (check_pyside6_installed ex_state_specless) = Inl ValueError \<and>
   fst (ensure_pyside2 ex_host ex_state_specless) = Inl ValueError \<and>
   fst (uninstall_pyside6 ex_host ex_state_specless) = Inl ValueError"
  by (simp add: check_pyside6_installed_def ensure_pyside2_def uninstall_pyside6_def ex_specless)
    (simp add: ex_state_specless_def)

text \<open>
  Claim C6. The probe \<^verbatim>\<open>check_pyside6_installed\<close> returns true when
  \<^verbatim>\<open>find_spec\<close> finds a spec for \<^verbatim>\<open>PySide6\<close> and false when it finds none; when
  \<^verbatim>\<open>find_spec\<close> raises, the probe raises the same exception. In every case the state is
  the one it was given: nothing is handed to \<^verbatim>\<open>subprocess\<close> and the machine is as it
  was. \<^verbatim>\<open>ensure_pyside2\<close> opens with the same test: with a spec it returns true,
  handing nothing to \<^verbatim>\<open>subprocess\<close>; when \<^verbatim>\<open>find_spec\<close> raises it raises, with the state
  as it was; with no spec the probe is over and the install operation takes its place.
\<close>

theorem probe_result:
  "(find_spec (mach s) ''PySide6'' = Inr True \<longrightarrow> fst (check_pyside6_installed s) = Inr True) \<and>
   (find_spec (mach s) ''PySide6'' = Inr False \<longrightarrow> fst (check_pyside6_installed s) = Inr False) \<and>
   (\<forall>e. find_spec (mach s) ''PySide6'' = Inl e \<longrightarrow> fst (check_pyside6_installed s) = Inl e) \<and>
   snd (check_pyside6_installed s) = s \<and>
   spawned (snd (check_pyside6_installed s)) = spawned s \<and>
   (find_spec (mach s) ''PySide6'' = Inr True \<longrightarrow>
      fst (ensure_pyside2 h s) = Inr True \<and> untouched s (snd (ensure_pyside2 h s))) \<and>
   (\<forall>e. find_spec (mach s) ''PySide6'' = Inl e \<longrightarrow> ensure_pyside2 h s = (Inl e, s)) \<and>
   (find_spec (mach s) ''PySide6'' = Inr False \<longrightarrow>
      ensure_pyside2 h s =
        pip_install_into_engine_sitepackages h ''PySide6'' None
          (unreal_log_warning ''PySide6 not found. Attempting installation...'' s))"
  by (auto simp: check_pyside6_installed_def ensure_pyside2_def untouched_def split: sum.splits)

text \<open>
  With the package resolvable, with it absent, and with it in \<^verbatim>\<open>sys.modules\<close> without a
  spec.
\<close>

theorem probe_result_witness:
  "check_pyside6_installed ex_state = (Inr True, ex_state) \<and>
   check_pyside6_installed ex_state_absent = (Inr False, ex_state_absent) \<and>
   check_pyside6_installed ex_state_specless = (Inl ValueError, ex_state_specless) \<and>
   fst (ensure_pyside2 ex_host ex_state) = Inr True \<and>
   spawned (snd (ensure_pyside2 ex_host ex_state)) = [] \<and>
   ensure_pyside2 ex_host ex_state_specless = (Inl ValueError, ex_state_specless) \<and>
   ensure_pyside2 ex_host ex_state_absent =
     pip_install_into_engine_sitepackages ex_host ''PySide6'' None
       (unreal_log_warning ''PySide6 not found. Attempting installation...'' ex_state_absent)"
proof -
  note here = probe_result [of ex_state ex_host]
  note gone = probe_result [of ex_state_absent ex_host]
  note odd = probe_result [of ex_state_specless ex_host]
  have 1: "fst (check_pyside6_installed ex_state) = Inr True"
    using here [THEN conjunct1, THEN mp, OF ex_present] .
  have 2: "fst (check_pyside6_installed ex_state_absent) = Inr False"
    using gone [THEN conjunct2, THEN conjunct1, THEN mp, OF ex_absent] .
  have 3: "fst (check_pyside6_installed ex_state_specless) = Inl ValueError"
    using odd [THEN conjunct2, THEN conjunct2, THEN conjunct1, rule_format, OF ex_specless] .
  have same: "snd (check_pyside6_installed ex_state) = ex_state"
    "snd (check_pyside6_installed ex_state_absent) = ex_state_absent"
    "snd (check_pyside6_installed ex_state_specless) = ex_state_specless"
    using here gone odd by simp_all
  have 4: "fst (ensure_pyside2 ex_host ex_state) = Inr True \<and>
           untouched ex_state (snd (ensure_pyside2 ex_host ex_state))"
    using here [THEN conjunct2, THEN conjunct2, THEN conjunct2, THEN conjunct2, THEN conjunct2,
        THEN conjunct1, THEN mp, OF ex_present] .
  have 5: "ensure_pyside2 ex_host ex_state_specless = (Inl ValueError, ex_state_specless)"
    using odd [THEN conjunct2, THEN conjunct2, THEN conjunct2, THEN conjunct2, THEN conjunct2,
        THEN conjunct2, THEN conjunct1, rule_format, OF ex_specless] .
  have 6: "ensure_pyside2 ex_host ex_state_absent =
     pip_install_into_engine_sitepackages ex_host ''PySide6'' None
       (unreal_log_warning ''PySide6 not found. Attempting installation...'' ex_state_absent)"
    using gone [THEN conjunct2, THEN conjunct2, THEN conjunct2, THEN conjunct2, THEN conjunct2,
        THEN conjunct2, THEN conjunct2, THEN mp, OF ex_absent] .
  have sp: "spawned (snd (ensure_pyside2 ex_host ex_state)) = []"
    using 4 by (simp add: untouched_def ex_state_def)
  from 1 same(1) have a: "check_pyside6_installed ex_state = (Inr True, ex_state)"
    by (simp add: prod_eq_iff)
  from 2 same(2) have b: "check_pyside6_installed ex_state_absent = (Inr False, ex_state_absent)"
    by (simp add: prod_eq_iff)
  from 3 same(3) have c: "check_pyside6_installed ex_state_specless = (Inl ValueError, ex_state_specless)"
    by (simp add: prod_eq_iff)
  from a b c 4 sp 5 6 show ?thesis by simp
qed

subsection \<open>The operations that capture output\<close>



lemma cleanup_found:
  "fst (get_embedded_python_exe h s) = Inr (Some py) \<Longrightarrow>
   fst (cleanup_pyside6_cache h s) =
     (case fst (run h (site_query h py) s) of
        Inr out \<Rightarrow> Inr True
      | Inl (CalledProcessError rc) \<Rightarrow> Inr False
      | Inl e \<Rightarrow> Inl e)"
  by (auto simp: cleanup_pyside6_cache_def Let_def dest!: found_state
           split: prod.splits sum.splits exn.splits)

subsection \<open>The uninstall driver\<close>

lemma check_state: "check_pyside6_installed s = (fst (check_pyside6_installed s), s)"
  by (simp add: check_pyside6_installed_def split: sum.splits)

lemma uninstall_absent:
  "fst (check_pyside6_installed s) = Inr False \<Longrightarrow>
   uninstall_pyside6 h s =
     (Inr False, unreal_log ''PySide6 is not installed in the engine's Python environment.'' s)"
  using check_state [of s] by (simp add: uninstall_pyside6_def)

lemma uninstall_present:
  assumes "fst (check_pyside6_installed s) = Inr True"
    and "get_pyside6_installation_info h s = (Inr info, s1)"
    and "fst (pip_uninstall_from_engine_sitepackages h ''PySide6'' None (announce info s1)) = Inr True"
    and "fst (check_pyside6_installed
                (snd (pip_uninstall_from_engine_sitepackages h ''PySide6'' None (announce info s1)))) =
         Inr still"
  shows "fst (uninstall_pyside6 h s) = Inr (\<not> still)"
proof -
  let ?u = "pip_uninstall_from_engine_sitepackages h ''PySide6'' None (announce info s1)"
  have a: "check_pyside6_installed s = (Inr True, s)"
    using check_state [of s] assms(1) by simp
  have b: "?u = (Inr True, snd ?u)"
    using assms(3) by (simp add: prod_eq_iff)
  have c: "check_pyside6_installed (snd ?u) = (Inr still, snd ?u)"
    using check_state [of "snd ?u"] assms(4) by simp
  have "uninstall_pyside6 h s =
        (case ?u of
           (Inl e, s4) \<Rightarrow> (Inl e, s4)
         | (Inr success, s4) \<Rightarrow>
             if success then
               (case check_pyside6_installed s4 of
                  (Inl e, s5) \<Rightarrow> (Inl e, s5)
                | (Inr still, s5) \<Rightarrow>
                    if \<not> still then
                      (Inr True, unreal_log ''PySide6 successfully uninstalled and verified.'' s5)
                    else
                      (Inr False,
                       unreal_log_warning
                         ''Uninstall command completed but PySide6 still appears to be available.''
                         s5))
             else (Inr False, unreal_log_error ''Failed to uninstall PySide6.'' s4))"
    by (simp add: uninstall_pyside6_def a assms(2))
  also have "fst \<dots> = Inr (\<not> still)"
    by (subst b) (simp add: c)
  finally show ?thesis .
qed

lemma uninstall_true:
  assumes "fst (uninstall_pyside6 h s) = Inr True"
  shows "fst (check_pyside6_installed s) = Inr True \<and>
      (\<exists>info s1.
         get_pyside6_installation_info h s = (Inr info, s1) \<and>
         fst (pip_uninstall_from_engine_sitepackages h ''PySide6'' None (announce info s1)) = Inr True \<and>
         fst (check_pyside6_installed
                (snd (pip_uninstall_from_engine_sitepackages h ''PySide6'' None (announce info s1)))) =
         Inr False)"
  using assms check_state [of s]
  by (auto simp: uninstall_pyside6_def split: prod.splits sum.splits if_splits)

text \<open>
  Claim C9. \<^verbatim>\<open>uninstall_pyside6\<close> returns true exactly when the first probe answers
  true, the information query returns, the \<^verbatim>\<open>pip uninstall\<close> operation returns true
  and the probe after it answers false; when \<^verbatim>\<open>pip uninstall\<close> returns true and the
  probe after it still answers true it returns false; and when the first probe answers
  false it returns false with the machine as it was and nothing handed to
  \<^verbatim>\<open>subprocess\<close>.
\<close>

theorem uninstall_driver:
  "(fst (uninstall_pyside6 h s) = Inr True \<longleftrightarrow>
      fst (check_pyside6_installed s) = Inr True \<and>
      (\<exists>info s1.
         get_pyside6_installation_info h s = (Inr info, s1) \<and>
         fst (pip_uninstall_from_engine_sitepackages h ''PySide6'' None (announce info s1)) = Inr True \<and>
         fst (check_pyside6_installed
                (snd (pip_uninstall_from_engine_sitepackages h ''PySide6'' None (announce info s1)))) =
         Inr False)) \<and>
   (\<forall>info s1.
      fst (check_pyside6_installed s) = Inr True \<and>
      get_pyside6_installation_info h s = (Inr info, s1) \<and>
      fst (pip_uninstall_from_engine_sitepackages h ''PySide6'' None (announce info s1)) = Inr True \<and>
      fst (check_pyside6_installed
             (snd (pip_uninstall_from_engine_sitepackages h ''PySide6'' None (announce info s1)))) =
      Inr True \<longrightarrow>
      fst (uninstall_pyside6 h s) = Inr False) \<and>
   (fst (check_pyside6_installed s) = Inr False \<longrightarrow>
      fst (uninstall_pyside6 h s) = Inr False \<and> untouched s (snd (uninstall_pyside6 h s)))"
proof (intro conjI allI impI iffI)
  assume "fst (uninstall_pyside6 h s) = Inr True"
  from uninstall_true [OF this]
  show "fst (check_pyside6_installed s) = Inr True"
    and "\<exists>info s1.
         get_pyside6_installation_info h s = (Inr info, s1) \<and>
         fst (pip_uninstall_from_engine_sitepackages h ''PySide6'' None (announce info s1)) = Inr True \<and>
         fst (check_pyside6_installed
                (snd (pip_uninstall_from_engine_sitepackages h ''PySide6'' None (announce info s1)))) =
         Inr False"
    by simp_all
next
  assume "fst (check_pyside6_installed s) = Inr True \<and>
      (\<exists>info s1.
         get_pyside6_installation_info h s = (Inr info, s1) \<and>
         fst (pip_uninstall_from_engine_sitepackages h ''PySide6'' None (announce info s1)) = Inr True \<and>
         fst (check_pyside6_installed
                (snd (pip_uninstall_from_engine_sitepackages h ''PySide6'' None (announce info s1)))) =
         Inr False)"
  then obtain info s1 where "fst (check_pyside6_installed s) = Inr True"
    "get_pyside6_installation_info h s = (Inr info, s1)"
    "fst (pip_uninstall_from_engine_sitepackages h ''PySide6'' None (announce info s1)) = Inr True"
    "fst (check_pyside6_installed
            (snd (pip_uninstall_from_engine_sitepackages h ''PySide6'' None (announce info s1)))) =
     Inr False"
    by blast
  from uninstall_present [OF this] show "fst (uninstall_pyside6 h s) = Inr True" by simp
next
  fix info s1
  assume "fst (check_pyside6_installed s) = Inr True \<and>
      get_pyside6_installation_info h s = (Inr info, s1) \<and>
      fst (pip_uninstall_from_engine_sitepackages h ''PySide6'' None (announce info s1)) = Inr True \<and>
      fst (check_pyside6_installed
             (snd (pip_uninstall_from_engine_sitepackages h ''PySide6'' None (announce info s1)))) =
      Inr True"
  then have "fst (check_pyside6_installed s) = Inr True"
    "get_pyside6_installation_info h s = (Inr info, s1)"
    "fst (pip_uninstall_from_engine_sitepackages h ''PySide6'' None (announce info s1)) = Inr True"
    "fst (check_pyside6_installed
            (snd (pip_uninstall_from_engine_sitepackages h ''PySide6'' None (announce info s1)))) =
     Inr True"
    by simp_all
  from uninstall_present [OF this] show "fst (uninstall_pyside6 h s) = Inr False" by simp
next
  assume "fst (check_pyside6_installed s) = Inr False"
  from uninstall_absent [OF this]
  show "fst (uninstall_pyside6 h s) = Inr False" "untouched s (snd (uninstall_pyside6 h s))"
    by (simp_all add: untouched_def)
qed

subsection \<open>The result of cleanup\<close>


subsection \<open>Evaluating the example\<close>

lemma announce_fields [simp]:
  "mach (announce info s) = mach s" "spawned (announce info s) = spawned s"
  by (simp_all add: announce_def Let_def split: option.splits)

lemma info_state:
  assumes "fst (get_embedded_python_exe h s) = Inr (Some py)"
    and "child h (Command [str_of h py, ''-m'', ''pip'', ''show'', ''PySide6''] None) (mach s) =
           (Exited rc (Some out), m')"
  shows "get_pyside6_installation_info h s =
           (if rc = 0 then Inr (Some out) else Inr None,
            s\<lparr>mach := m',
              spawned := spawned s @ [Command [str_of h py, ''-m'', ''pip'', ''show'', ''PySide6''] None]\<rparr>)"
  using assms(2) by (simp add: get_pyside6_installation_info_def found_state [OF assms(1)] run_def)

lemma pip_uninstall_state:
  assumes "fst (get_embedded_python_exe h s) = Inr (Some py)"
    and "child h (Command (uninstall_cmd h py package extra_args) None) (mach s) = (Exited rc out, m')"
  shows "fst (pip_uninstall_from_engine_sitepackages h package extra_args s) = Inr (rc = 0)"
    and "mach (snd (pip_uninstall_from_engine_sitepackages h package extra_args s)) = m'"
  using assms(2)
  by (simp_all add: pip_uninstall_from_engine_sitepackages_def found_state [OF assms(1)] Let_def
      check_call_def)

lemma cleanup_state:
  assumes "fst (get_embedded_python_exe h s) = Inr (Some py)"
    and "child h (site_query h py) (mach s) = (Exited 0 (Some out), m')"
  shows "snd (cleanup_pyside6_cache h s) =
           (let s2 = s\<lparr>mach := m', spawned := spawned s @ [site_query h py]\<rparr>;
                found = pyside_paths h m' (path_of h (strip out))
            in if found \<noteq> [] then
                 remove_paths h found (unreal_log ''Found potential PySide6 remnants:'' s2)
               else unreal_log ''No PySide6 remnants found.'' s2)"
  using assms(2)
  by (simp add: cleanup_pyside6_cache_def found_state [OF assms(1)] run_def Let_def)

lemma ex_host_fields:
  "child ex_host = ex_child" "str_of ex_host = posix_str" "path_of ex_host = posix_path"
  "sys_platform ex_host = ''linux''"
  by (simp_all add: ex_host_def)

lemma ex_python_posix_str:
  "posix_str ex_python = ''/UE/Engine/Binaries/ThirdParty/Python3/Linux/bin/python3''"
  by (simp add: posix_str_def ex_python_def)

lemma ex_host_found:
  "files (mach s) = files ex_machine \<Longrightarrow> unsearchable (mach s) = [] \<Longrightarrow>
   fst (get_embedded_python_exe ex_host s) = Inr (Some ex_python)"
  using ex_found [of s ex_child] by (simp add: ex_host_child)

lemma ex_child_show:
  "ex_child (Command [posix_str ex_python, ''-m'', ''pip'', ''show'', ''PySide6''] None) m =
     (Exited 0 (Some ''Name: PySide6''), m)"
  by (simp add: ex_child_def ex_python_posix_str)

lemma ex_child_uninstall:
  "ex_child (Command (uninstall_cmd ex_host ex_python ''PySide6'' None) None) m =
     (Exited 0 (Some []), m\<lparr>modules := filter (\<lambda>n. n \<noteq> ''PySide6'') (modules m)\<rparr>)"
  by (simp add: ex_child_def uninstall_cmd_def ex_host_fields ex_python_posix_str)


text \<open>
  A successful removal, a \<^verbatim>\<open>pip\<close> that exits with 0 and removes nothing, and a package
  that was never there.
\<close>

theorem uninstall_driver_witness:
  "fst (uninstall_pyside6 ex_host ex_state) = Inr True \<and>
   fst (uninstall_pyside6 ex_host_stubborn ex_state) = Inr False \<and>
   fst (uninstall_pyside6 ex_host ex_state_absent) = Inr False \<and>
   spawned (snd (uninstall_pyside6 ex_host ex_state_absent)) = []"
proof -
  let ?show = "Command [str_of ex_host ex_python, ''-m'', ''pip'', ''show'', ''PySide6''] None"
  let ?s1 = "ex_state\<lparr>spawned := spawned ex_state @ [?show]\<rparr>"
  let ?info = "Some ''Name: PySide6''"
  have f: "fst (get_embedded_python_exe ex_host ex_state) = Inr (Some ex_python)"
    by (rule ex_state_found)
  have i: "get_pyside6_installation_info ex_host ex_state = (Inr ?info, ?s1)"
    using info_state [OF f, of 0 "''Name: PySide6''" "mach ex_state"]
    by (simp add: ex_host_fields ex_child_show)
  have f1: "fst (get_embedded_python_exe ex_host (announce ?info ?s1)) = Inr (Some ex_python)"
    by (simp add: ex_host_found ex_state_def ex_machine_def)
  have c: "child ex_host (Command (uninstall_cmd ex_host ex_python ''PySide6'' None) None)
             (mach (announce ?info ?s1)) =
           (Exited 0 (Some []), ex_machine\<lparr>modules := [''numpy'']\<rparr>)"
    by (simp add: ex_host_fields(1) ex_child_uninstall) (simp add: ex_state_def ex_machine_def)
  note u = pip_uninstall_state [OF f1 c]
  have ok: "fst (pip_uninstall_from_engine_sitepackages ex_host ''PySide6'' None (announce ?info ?s1)) = Inr True"
    using u(1) by simp
  have gone: "fst (check_pyside6_installed
             (snd (pip_uninstall_from_engine_sitepackages ex_host ''PySide6'' None (announce ?info ?s1)))) =
             Inr False"
    unfolding check_pyside6_installed_def find_spec_def u(2) by (simp add: ex_machine_def)
  have here: "fst (check_pyside6_installed ex_state) = Inr True"
    by (simp add: check_pyside6_installed_def ex_present)
  have 1: "fst (uninstall_pyside6 ex_host ex_state) = Inr True"
    using uninstall_driver [of ex_host ex_state, THEN conjunct1] here i ok gone by blast
  let ?show' = "Command [str_of ex_host_stubborn ex_python, ''-m'', ''pip'', ''show'', ''PySide6''] None"
  let ?s1' = "ex_state\<lparr>spawned := spawned ex_state @ [?show']\<rparr>"
  have g: "fst (get_embedded_python_exe ex_host_stubborn ex_state) = Inr (Some ex_python)"
    unfolding ex_host_stubborn_def by (simp add: ex_found ex_state_def ex_machine_def)
  have i': "get_pyside6_installation_info ex_host_stubborn ex_state = (Inr (Some []), ?s1')"
    using info_state [OF g, of 0 "[]" "mach ex_state"]
    by (simp add: ex_host_stubborn_def ex_host_fields ex_python_posix_str)
  have g1: "fst (get_embedded_python_exe ex_host_stubborn (announce (Some []) ?s1')) = Inr (Some ex_python)"
    unfolding ex_host_stubborn_def by (simp add: ex_found ex_state_def ex_machine_def)
  have c': "child ex_host_stubborn (Command (uninstall_cmd ex_host_stubborn ex_python ''PySide6'' None) None)
             (mach (announce (Some []) ?s1')) = (Exited 0 (Some []), ex_machine)"
    by (simp add: ex_host_stubborn_def uninstall_cmd_def ex_host_fields ex_python_posix_str ex_state_def)
  note u' = pip_uninstall_state [OF g1 c']
  have ok': "fst (pip_uninstall_from_engine_sitepackages ex_host_stubborn ''PySide6'' None
                    (announce (Some []) ?s1')) = Inr True"
    using u'(1) by simp
  have still: "fst (check_pyside6_installed
             (snd (pip_uninstall_from_engine_sitepackages ex_host_stubborn ''PySide6'' None
                     (announce (Some []) ?s1')))) = Inr True"
    unfolding check_pyside6_installed_def find_spec_def u'(2) by (simp add: ex_machine_def)
  have 2: "fst (uninstall_pyside6 ex_host_stubborn ex_state) = Inr False"
    using uninstall_driver [of ex_host_stubborn ex_state, THEN conjunct2, THEN conjunct1, rule_format,
        OF conjI [OF here conjI [OF i' conjI [OF ok' still]]]] .
  have away: "fst (check_pyside6_installed ex_state_absent) = Inr False"
    by (simp add: check_pyside6_installed_def ex_absent)
  have 3: "fst (uninstall_pyside6 ex_host ex_state_absent) = Inr False \<and>
           untouched ex_state_absent (snd (uninstall_pyside6 ex_host ex_state_absent))"
    using uninstall_driver [of ex_host ex_state_absent, THEN conjunct2, THEN conjunct2, THEN mp, OF away] .
  from 1 2 3 show ?thesis
    by (simp add: untouched_def ex_state_absent_def)
qed






subsection \<open>Which exceptions reach the caller\<close>





lemma cleanup_outcome:
  assumes "fst (get_embedded_python_exe h s) = Inr (Some py)"
  shows "fst (cleanup_pyside6_cache h s) =
     (case fst (child h (site_query h py) (mach s)) of
        NotStarted \<Rightarrow> Inl OSError
      | Exited rc None \<Rightarrow> Inl UnicodeDecodeError
      | Exited rc (Some out) \<Rightarrow> Inr (rc = 0))"
  unfolding cleanup_found [OF assms] run_fst
  by (simp split: proc_outcome.splits option.splits)









subsection \<open>Removing one path\<close>

lemma under_trans:
  assumes "under a b" and "under b c"
  shows "under a c"
proof -
  from assms(1) have len: "length (parts a) \<le> length (parts b)" by (rule under_length)
  have "take (length (parts a)) (parts c) = take (length (parts a)) (take (length (parts b)) (parts c))"
    using len by (simp add: min_def)
  also have "\<dots> = parts a"
    using assms by (simp add: under_def)
  finally show ?thesis
    using assms by (simp add: under_def)
qed

lemma children_under: "c \<in> set (children m p) \<Longrightarrow> under p c"
  by (auto simp: children_def parent_def under_def butlast_conv_take)

lemma walk_under: "q \<in> set (walk m p) \<Longrightarrow> under p q"
proof (induction m p arbitrary: q rule: walk.induct)
  case (1 m p)
  from "1.prems" have "q = p \<or> (\<exists>c\<in>set (children m p).
      q \<in> set (if map_of (files m) c = Some Dir then walk m c else [c]))"
    by (subst (asm) walk.simps) auto
  then show ?case
  proof
    assume "q = p"
    then show ?thesis by (simp add: under_refl)
  next
    assume "\<exists>c\<in>set (children m p). q \<in> set (if map_of (files m) c = Some Dir then walk m c else [c])"
    then obtain c where c: "c \<in> set (children m p)"
      and q: "q \<in> set (if map_of (files m) c = Some Dir then walk m c else [c])"
      by blast
    have "under c q"
    proof (cases "map_of (files m) c = Some Dir")
      case True
      with q have "q \<in> set (walk m c)" by simp
      with c True show ?thesis by (rule "1.IH")
    next
      case False
      with q show ?thesis by (simp add: under_refl)
    qed
    with children_under [OF c] show ?thesis by (rule under_trans)
  qed
qed

lemma drops_nothing: "drops [] m m"
  by (simp add: drops_def)

lemma drops_one: "drops [q] m (m\<lparr>files := filter (\<lambda>e. fst e \<noteq> q) (files m)\<rparr>)"
  by (simp add: drops_def)

lemma drops_trans: "drops G m m' \<Longrightarrow> drops G' m' m'' \<Longrightarrow> drops (G @ G') m m''"
  by (auto simp: drops_def intro: filter_cong)

lemma unlink_drops: "\<exists>G. set G \<subseteq> {q} \<and> drops G m (snd (unlink q m))"
proof (cases "fst (unlink q m)")
  case (Inl e)
  then have "snd (unlink q m) = m"
    by (auto simp: unlink_def split: option.splits node.splits if_splits)
  then have "set [] \<subseteq> {q} \<and> drops [] m (snd (unlink q m))"
    by (simp add: drops_nothing)
  then show ?thesis by (rule exI)
next
  case (Inr u)
  then have "snd (unlink q m) = m\<lparr>files := filter (\<lambda>e. fst e \<noteq> q) (files m)\<rparr>"
    by (auto simp: unlink_def split: option.splits node.splits if_splits)
  then have "set [q] \<subseteq> {q} \<and> drops [q] m (snd (unlink q m))"
    by (simp add: drops_one)
  then show ?thesis by (rule exI)
qed

lemma rmdir_drops: "\<exists>G. set G \<subseteq> {q} \<and> drops G m (snd (rmdir q m))"
proof (cases "fst (rmdir q m)")
  case (Inl e)
  then have "snd (rmdir q m) = m"
    by (auto simp: rmdir_def split: if_splits)
  then have "set [] \<subseteq> {q} \<and> drops [] m (snd (rmdir q m))"
    by (simp add: drops_nothing)
  then show ?thesis by (rule exI)
next
  case (Inr u)
  then have "snd (rmdir q m) = m\<lparr>files := filter (\<lambda>e. fst e \<noteq> q) (files m)\<rparr>"
    by (auto simp: rmdir_def split: if_splits)
  then have "set [q] \<subseteq> {q} \<and> drops [q] m (snd (rmdir q m))"
    by (simp add: drops_one)
  then show ?thesis by (rule exI)
qed

lemma remove_in_order_drops: "\<exists>G. set G \<subseteq> set qs \<and> drops G m (snd (remove_in_order qs m))"
proof (induction qs arbitrary: m)
  case Nil
  have "set [] \<subseteq> set [] \<and> drops [] m (snd (remove_in_order [] m))"
    by (simp add: drops_nothing)
  then show ?case by (rule exI)
next
  case (Cons q qs)
  let ?step = "if map_of (files m) q = Some Dir then rmdir q m else unlink q m"
  obtain G1 where g1: "set G1 \<subseteq> {q}" "drops G1 m (snd ?step)"
    using unlink_drops [of q m] rmdir_drops [of q m] by (cases "map_of (files m) q = Some Dir") auto
  show ?case
  proof (cases "fst ?step")
    case (Inl e)
    then have "snd (remove_in_order (q # qs) m) = snd ?step"
      by (cases ?step) simp
    with g1 have "set G1 \<subseteq> set (q # qs) \<and> drops G1 m (snd (remove_in_order (q # qs) m))"
      by auto
    then show ?thesis by (rule exI)
  next
    case (Inr u)
    then have r: "snd (remove_in_order (q # qs) m) = snd (remove_in_order qs (snd ?step))"
      by (cases ?step) simp
    from Cons.IH [of "snd ?step"] obtain G2 where
      g2: "set G2 \<subseteq> set qs" "drops G2 (snd ?step) (snd (remove_in_order qs (snd ?step)))"
      by blast
    from g1(2) g2(2) have "drops (G1 @ G2) m (snd (remove_in_order (q # qs) m))"
      unfolding r by (rule drops_trans)
    with g1(1) g2(1) have "set (G1 @ G2) \<subseteq> set (q # qs) \<and>
        drops (G1 @ G2) m (snd (remove_in_order (q # qs) m))"
      by auto
    then show ?thesis by (rule exI)
  qed
qed

lemma rmtree_drops: "\<exists>G. (\<forall>q\<in>set G. under p q) \<and> drops G m (snd (rmtree p m))"
proof (cases "map_of (files m) p = Some Dir")
  case True
  from remove_in_order_drops [of "walk m p" m] obtain G where
    g: "set G \<subseteq> set (walk m p)" "drops G m (snd (remove_in_order (walk m p) m))"
    by blast
  from g(1) have "\<forall>q\<in>set G. under p q"
    using walk_under by blast
  with g(2) True have "(\<forall>q\<in>set G. under p q) \<and> drops G m (snd (rmtree p m))"
    by (simp add: rmtree_def)
  then show ?thesis by (rule exI)
next
  case False
  then have "(\<forall>q\<in>set []. under p q) \<and> drops [] m (snd (rmtree p m))"
    by (simp add: rmtree_def drops_nothing)
  then show ?thesis by (rule exI)
qed

lemma remove_path_mach:
  "mach (remove_path h p s) = mach s \<or> mach (remove_path h p s) = snd (rmtree p (mach s)) \<or>
   mach (remove_path h p s) = snd (unlink p (mach s))"
  by (auto simp: remove_path_def Let_def split: sum.splits prod.splits)

lemma remove_path_drops:
  "\<exists>G. (\<forall>q\<in>set G. under p q) \<and> drops G (mach s) (mach (remove_path h p s))"
proof -
  from rmtree_drops [of p "mach s"] obtain G1 where
    g1: "\<forall>q\<in>set G1. under p q" "drops G1 (mach s) (snd (rmtree p (mach s)))" by blast
  from unlink_drops [of p "mach s"] obtain G2 where
    g2: "set G2 \<subseteq> {p}" "drops G2 (mach s) (snd (unlink p (mach s)))" by blast
  from g2(1) have u2: "\<forall>q\<in>set G2. under p q" by (auto simp: under_refl)
  from remove_path_mach [of h p s] consider
    "mach (remove_path h p s) = mach s" | "mach (remove_path h p s) = snd (rmtree p (mach s))" |
    "mach (remove_path h p s) = snd (unlink p (mach s))" by blast
  then show ?thesis
  proof cases
    case 1
    then have "(\<forall>q\<in>set []. under p q) \<and> drops [] (mach s) (mach (remove_path h p s))"
      by (simp add: drops_nothing)
    then show ?thesis by (rule exI)
  next
    case 2
    with g1 have "(\<forall>q\<in>set G1. under p q) \<and> drops G1 (mach s) (mach (remove_path h p s))"
      by simp
    then show ?thesis by (rule exI)
  next
    case 3
    with g2(2) u2 have "(\<forall>q\<in>set G2. under p q) \<and> drops G2 (mach s) (mach (remove_path h p s))"
      by simp
    then show ?thesis by (rule exI)
  qed
qed

lemma remove_path_spawned: "spawned (remove_path h p s) = spawned s"
  by (auto simp: remove_path_def Let_def split: sum.splits prod.splits)

lemma remove_path_logged:
  "\<exists>rest. logged (remove_path h p s) = logged s @ (Info, ''  - '' @ str_of h p) # rest"
  by (auto simp: remove_path_def Let_def split: sum.splits prod.splits)

subsection \<open>The sweep\<close>

lemma swept_Cons: "swept (p # ps) q \<longleftrightarrow> under p q \<or> swept ps q"
  by (simp add: swept_def)

lemma remove_paths_drops:
  "\<exists>G. (\<forall>q\<in>set G. swept ps q) \<and> drops G (mach s) (mach (remove_paths h ps s))"
proof (induction ps arbitrary: s)
  case Nil
  have "(\<forall>q\<in>set []. swept [] q) \<and> drops [] (mach s) (mach (remove_paths h [] s))"
    by (simp add: drops_nothing)
  then show ?case by (rule exI)
next
  case (Cons p ps)
  from remove_path_drops [of p s h] obtain G1 where
    g1: "\<forall>q\<in>set G1. under p q" "drops G1 (mach s) (mach (remove_path h p s))" by blast
  from Cons.IH [of "remove_path h p s"] obtain G2 where
    g2: "\<forall>q\<in>set G2. swept ps q"
      "drops G2 (mach (remove_path h p s)) (mach (remove_paths h ps (remove_path h p s)))"
    by blast
  from g1(2) g2(2) have "drops (G1 @ G2) (mach s) (mach (remove_paths h (p # ps) s))"
    by (simp add: drops_trans)
  moreover from g1(1) g2(1) have "\<forall>q\<in>set (G1 @ G2). swept (p # ps) q"
    by (auto simp: swept_Cons)
  ultimately have "(\<forall>q\<in>set (G1 @ G2). swept (p # ps) q) \<and>
      drops (G1 @ G2) (mach s) (mach (remove_paths h (p # ps) s))"
    by simp
  then show ?case by (rule exI)
qed

lemma remove_paths_spawned: "spawned (remove_paths h ps s) = spawned s"
  by (induction ps arbitrary: s) (simp_all add: remove_path_spawned)

lemma remove_paths_keeps_log: "set (logged s) \<subseteq> set (logged (remove_paths h ps s))"
proof (induction ps arbitrary: s)
  case Nil
  show ?case by simp
next
  case (Cons p ps)
  from remove_path_logged [of h p s] have "set (logged s) \<subseteq> set (logged (remove_path h p s))"
    by auto
  with Cons.IH [of "remove_path h p s"] show ?case by auto
qed

lemma remove_paths_lists:
  "c \<in> set ps \<Longrightarrow> (Info, ''  - '' @ str_of h c) \<in> set (logged (remove_paths h ps s))"
proof (induction ps arbitrary: s)
  case Nil
  then show ?case by simp
next
  case (Cons p ps)
  show ?case
  proof (cases "c = p")
    case True
    from remove_path_logged [of h p s] have "(Info, ''  - '' @ str_of h p) \<in> set (logged (remove_path h p s))"
      by auto
    with remove_paths_keeps_log [of "remove_path h p s" h ps] True show ?thesis by auto
  next
    case False
    with Cons.prems have "c \<in> set ps" by simp
    from Cons.IH [OF this, of "remove_path h p s"] show ?thesis by simp
  qed
qed

lemma pyside_paths_iff:
  "c \<in> set (pyside_paths h m d) \<longleftrightarrow>
     listed m c \<and> parts c \<noteq> [] \<and> parent c = d \<and> list_ex (\<lambda>pat. name_matches h pat (name c)) patterns"
  by (auto simp: pyside_paths_def path_glob_def children_def listed_def list_ex_iff)

lemma cleanup_sweep:
  assumes "fst (get_embedded_python_exe h s) = Inr (Some py)"
    and "child h (site_query h py) (mach s) = (Exited 0 (Some out), m1)"
  shows "\<exists>t. mach t = m1 \<and> spawned t = spawned s @ [site_query h py] \<and>
             snd (cleanup_pyside6_cache h s) =
               remove_paths h (pyside_paths h m1 (path_of h (strip out))) t"
proof (cases "pyside_paths h m1 (path_of h (strip out)) = []")
  case True
  let ?t = "unreal_log ''No PySide6 remnants found.'' (s\<lparr>mach := m1, spawned := spawned s @ [site_query h py]\<rparr>)"
  from True have "mach ?t = m1 \<and> spawned ?t = spawned s @ [site_query h py] \<and>
             snd (cleanup_pyside6_cache h s) =
               remove_paths h (pyside_paths h m1 (path_of h (strip out))) ?t"
    by (simp add: cleanup_state [OF assms])
  then show ?thesis by (rule exI)
next
  case False
  let ?t = "unreal_log ''Found potential PySide6 remnants:''
              (s\<lparr>mach := m1, spawned := spawned s @ [site_query h py]\<rparr>)"
  from False have "mach ?t = m1 \<and> spawned ?t = spawned s @ [site_query h py] \<and>
             snd (cleanup_pyside6_cache h s) =
               remove_paths h (pyside_paths h m1 (path_of h (strip out))) ?t"
    by (simp add: cleanup_state [OF assms])
  then show ?thesis by (rule exI)
qed

text \<open>
  What cleanup does hold to, on every platform. With the interpreter resolved and the
  query exiting with 0, let \<open>d\<close> be the directory the query printed and \<open>found\<close> what the
  three globs return there. Then \<open>found\<close> holds exactly the entries directly in \<open>d\<close>
  whose name matches one of the patterns; the entries that are neither in \<open>found\<close> nor
  beneath one of its members are afterwards what and where they were; nothing is
  created or altered; the rest of the machine and the commands run are as the query
  left them; and every path in \<open>found\<close> comes up in the log, whatever happened to the
  ones before it.
\<close>

lemma cleanup_frame:
  assumes "fst (get_embedded_python_exe h s) = Inr (Some py)"
    and "child h (site_query h py) (mach s) = (Exited 0 (Some out), m1)"
    and "found = pyside_paths h m1 (path_of h (strip out))"
    and "s' = snd (cleanup_pyside6_cache h s)"
  shows "\<forall>c. c \<in> set found \<longleftrightarrow>
               listed m1 c \<and> parts c \<noteq> [] \<and> parent c = path_of h (strip out) \<and>
               list_ex (\<lambda>pat. name_matches h pat (name c)) patterns"
    and "filter (\<lambda>e. \<not> swept found (fst e)) (files (mach s')) =
         filter (\<lambda>e. \<not> swept found (fst e)) (files m1)"
    and "set (files (mach s')) \<subseteq> set (files m1)"
    and "locked (mach s') = locked m1" and "unsearchable (mach s') = unsearchable m1"
    and "modules (mach s') = modules m1" and "specless (mach s') = specless m1"
    and "spawned s' = spawned s @ [site_query h py]"
    and "\<forall>c\<in>set found. (Info, ''  - '' @ str_of h c) \<in> set (logged s')"
proof -
  from cleanup_sweep [OF assms(1,2)] obtain t where
    t: "mach t = m1" "spawned t = spawned s @ [site_query h py]"
    and s': "s' = remove_paths h found t"
    unfolding assms(3,4) by blast
  from remove_paths_drops [of found t h] obtain G where
    g: "\<forall>q\<in>set G. swept found q"
    and d: "mach s' = m1\<lparr>files := filter (\<lambda>e. fst e \<notin> set G) (files m1)\<rparr>"
    unfolding s' t drops_def by blast
  show "\<forall>c. c \<in> set found \<longleftrightarrow>
               listed m1 c \<and> parts c \<noteq> [] \<and> parent c = path_of h (strip out) \<and>
               list_ex (\<lambda>pat. name_matches h pat (name c)) patterns"
    unfolding assms(3) by (simp add: pyside_paths_iff)
  show "filter (\<lambda>e. \<not> swept found (fst e)) (files (mach s')) =
        filter (\<lambda>e. \<not> swept found (fst e)) (files m1)"
    unfolding d using g by (auto intro: filter_cong)
  show "set (files (mach s')) \<subseteq> set (files m1)"
    unfolding d by auto
  show "locked (mach s') = locked m1" "unsearchable (mach s') = unsearchable m1"
    "modules (mach s') = modules m1" "specless (mach s') = specless m1"
    unfolding d by simp_all
  show "spawned s' = spawned s @ [site_query h py]"
    unfolding s' by (simp add: remove_paths_spawned t)
  show "\<forall>c\<in>set found. (Info, ''  - '' @ str_of h c) \<in> set (logged s')"
    unfolding s' by (blast intro: remove_paths_lists)
qed

subsection \<open>A removal that fails\<close>

lemma drops_listed: "drops G m m' \<Longrightarrow> listed m' q \<Longrightarrow> listed m q"
  by (auto simp: drops_def listed_def)

lemma unlink_done: "fst (unlink q m) = Inr u \<Longrightarrow> \<not> listed (snd (unlink q m)) q"
  by (auto simp: unlink_def listed_def split: option.splits node.splits if_splits)

lemma rmdir_done: "fst (rmdir q m) = Inr u \<Longrightarrow> \<not> listed (snd (rmdir q m)) q"
  by (auto simp: rmdir_def listed_def split: if_splits)

lemma remove_in_order_done:
  "fst (remove_in_order qs m) = Inr u \<Longrightarrow> q \<in> set qs \<Longrightarrow> \<not> listed (snd (remove_in_order qs m)) q"
proof (induction qs arbitrary: m)
  case Nil
  then show ?case by simp
next
  case (Cons x qs)
  let ?step = "if map_of (files m) x = Some Dir then rmdir x m else unlink x m"
  from Cons.prems(1) obtain v where ok: "fst ?step = Inr v"
    by (cases ?step; cases "fst ?step") (auto split: if_splits)
  then have r: "remove_in_order (x # qs) m = remove_in_order qs (snd ?step)"
    by (cases ?step) simp
  show ?case
  proof (cases "q \<in> set qs")
    case True
    from Cons.prems(1) have "fst (remove_in_order qs (snd ?step)) = Inr u"
      by (simp only: r)
    from Cons.IH [OF this True] show ?thesis unfolding r .
  next
    case False
    with Cons.prems(2) have qx: "q = x" by simp
    have gone: "\<not> listed (snd ?step) x"
      using ok unlink_done [of x m] rmdir_done [of x m] by (auto split: if_splits)
    from remove_in_order_drops [of qs "snd ?step"] obtain G where
      "drops G (snd ?step) (snd (remove_in_order qs (snd ?step)))" by blast
    with gone have "\<not> listed (snd (remove_in_order qs (snd ?step))) x"
      using drops_listed by blast
    with qx show ?thesis unfolding r by simp
  qed
qed

lemma walk_last: "p \<in> set (walk m p)"
  by (subst walk.simps) simp

lemma rmtree_done: "fst (rmtree p m) = Inr u \<Longrightarrow> \<not> listed (snd (rmtree p m)) p"
  using remove_in_order_done [of "walk m p" m u p] walk_last [of p m]
  by (auto simp: rmtree_def split: if_splits)

text \<open>
  A path that is still in the file table after its turn in the loop has a warning in
  the log: the failure was caught there, and the loop went on.
\<close>

lemma remove_path_warns:
  assumes "listed (mach (remove_path h p s)) p"
  shows "\<exists>e. logged (remove_path h p s) =
           logged s @ [(Info, ''  - '' @ str_of h p),
                       (Warning, ''  Could not remove '' @ str_of h p @ '': '' @ exn_str e)]"
proof (cases "is_dir (mach s) p")
  case (Inl e)
  then have "logged (remove_path h p s) =
           logged s @ [(Info, ''  - '' @ str_of h p),
                       (Warning, ''  Could not remove '' @ str_of h p @ '': '' @ exn_str e)]"
    by (simp add: remove_path_def Let_def)
  then show ?thesis by (rule exI)
next
  case (Inr d)
  let ?r = "if d then rmtree p (mach s) else unlink p (mach s)"
  have m: "mach (remove_path h p s) = snd ?r"
    using Inr by (auto simp: remove_path_def Let_def split: prod.splits sum.splits)
  obtain e where e: "fst ?r = Inl e"
  proof (cases "fst ?r")
    case (Inl e)
    then show ?thesis by (rule that)
  next
    case (Inr u)
    then have "\<not> listed (snd ?r) p"
      using rmtree_done [of p "mach s" u] unlink_done [of p "mach s" u] by (auto split: if_splits)
    with assms m show ?thesis by simp
  qed
  then have "logged (remove_path h p s) =
           logged s @ [(Info, ''  - '' @ str_of h p),
                       (Warning, ''  Could not remove '' @ str_of h p @ '': '' @ exn_str e)]"
    using Inr by (cases d; cases "rmtree p (mach s)"; cases "unlink p (mach s)")
      (simp_all add: remove_path_def Let_def)
  then show ?thesis by (rule exI)
qed

lemma remove_paths_warns:
  "c \<in> set ps \<Longrightarrow> listed (mach (remove_paths h ps s)) c \<Longrightarrow>
   \<exists>e. (Warning, ''  Could not remove '' @ str_of h c @ '': '' @ exn_str e)
          \<in> set (logged (remove_paths h ps s))"
proof (induction ps arbitrary: s)
  case Nil
  then show ?case by simp
next
  case (Cons p ps)
  show ?case
  proof (cases "c \<in> set ps")
    case True
    from Cons.prems(2) have "listed (mach (remove_paths h ps (remove_path h p s))) c" by simp
    from Cons.IH [OF True this] show ?thesis by simp
  next
    case False
    with Cons.prems(1) have cp: "c = p" by simp
    from remove_paths_drops [of ps "remove_path h p s" h] obtain G where
      "drops G (mach (remove_path h p s)) (mach (remove_paths h ps (remove_path h p s)))" by blast
    with Cons.prems(2) have "listed (mach (remove_path h p s)) c"
      using drops_listed by auto
    with cp have "listed (mach (remove_path h p s)) p" by simp
    from remove_path_warns [OF this] obtain e where
      "logged (remove_path h p s) =
           logged s @ [(Info, ''  - '' @ str_of h p),
                       (Warning, ''  Could not remove '' @ str_of h p @ '': '' @ exn_str e)]"
      by blast
    then have "(Warning, ''  Could not remove '' @ str_of h p @ '': '' @ exn_str e)
                 \<in> set (logged (remove_path h p s))"
      by simp
    with remove_paths_keeps_log [of "remove_path h p s" h ps]
    have "(Warning, ''  Could not remove '' @ str_of h c @ '': '' @ exn_str e)
            \<in> set (logged (remove_paths h (p # ps) s))"
      unfolding cp by auto
    then show ?thesis by (rule exI)
  qed
qed

lemma cleanup_warns:
  assumes "fst (get_embedded_python_exe h s) = Inr (Some py)"
    and "child h (site_query h py) (mach s) = (Exited 0 (Some out), m1)"
    and "c \<in> set (pyside_paths h m1 (path_of h (strip out)))"
    and "listed (mach (snd (cleanup_pyside6_cache h s))) c"
  shows "\<exists>e. (Warning, ''  Could not remove '' @ str_of h c @ '': '' @ exn_str e)
               \<in> set (logged (snd (cleanup_pyside6_cache h s)))"
proof -
  from cleanup_sweep [OF assms(1,2)] obtain t where
    s': "snd (cleanup_pyside6_cache h s) =
           remove_paths h (pyside_paths h m1 (path_of h (strip out))) t"
    by blast
  from assms(4) show ?thesis
    unfolding s' by (rule remove_paths_warns [OF assms(3)])
qed

subsection \<open>Cleanup on Windows\<close>

lemmas ex_win_paths = ex_win_prefix_def ex_win_python_def ex_win_site_def joinpath_def

lemma ex_win_fields:
  "child ex_win_host = ex_win_child" "str_of ex_win_host = win_str" "path_of ex_win_host = win_path"
  "sys_platform ex_win_host = ''win32''"
  by (simp_all add: ex_win_host_def)

lemma ex_win_reference:
  "get_unreal_editor_exe ex_win_host =
     Inr (Path [CHR ''C'', CHR '':'', CHR 0x5C] [''UE'', ''Engine'', ''Binaries'', ''Win64'', ''UnrealEditor.exe''])"
  by (simp add: get_unreal_editor_exe_def ex_win_host_def win_path_def win_str_def name_def
      lower_def lower_char_def startswith_def)

lemma ex_win_candidates:
  "candidates ex_win_host
     (joinpath (joinpath (Path [CHR ''C'', CHR '':'', CHR 0x5C] [''UE'', ''Engine'']) ''Binaries'') ''ThirdParty'') =
   [ex_win_python, joinpath ex_win_prefix ''python3.exe'']"
  by (simp add: candidates_def ex_win_host_def startswith_def ex_win_paths)

lemma ex_win_locate:
  "exists m ex_win_python = Inr True \<Longrightarrow>
   guess_embedded_python_exe_from_editor ex_win_host m
     (Path [CHR ''C'', CHR '':'', CHR 0x5C] [''UE'', ''Engine'', ''Binaries'', ''Win64'', ''UnrealEditor.exe'']) =
   Some ex_win_python"
  by (simp add: guess_embedded_python_exe_from_editor_def guess_body_def parents_def
      ex_win_candidates)

lemma ex_win_found:
  "fst (get_embedded_python_exe ex_win_host ex_win_state) = Inr (Some ex_win_python)"
proof -
  have "exists (mach ex_win_state) ex_win_python = Inr True"
    by (simp add: exists_def stat_def ex_win_state_def ex_win_machine_def ex_win_paths)
  then show ?thesis
    by (simp add: get_embedded_python_exe_def ex_win_reference ex_win_locate)
qed

lemma ex_win_query:
  "child ex_win_host (site_query ex_win_host ex_win_python) (mach ex_win_state) =
     (Exited 0 (Some (win_str ex_win_prefix @ [CHR 0x0A])), ex_win_machine)"
  by (simp add: ex_win_fields ex_win_child_def site_query_def ex_win_state_def)

lemma ex_win_parsed: "win_path (strip (win_str ex_win_prefix @ [CHR 0x0A])) = ex_win_prefix"
  by (simp add: strip_def is_space_def win_path_def win_str_def ex_win_prefix_def)

lemma ex_win_pyside_paths:
  "pyside_paths ex_win_host ex_win_machine ex_win_prefix =
     [joinpath ex_win_prefix ''pyside6-setup.log'', joinpath ex_win_prefix ''pyside6-setup.log'']"
  by (simp add: pyside_paths_def patterns_def path_glob_def children_def name_matches_def
      ex_win_fields startswith_def lower_def lower_char_def ex_win_machine_def ex_win_paths
      parent_def name_def)

lemma ex_win_sweep:
  "remove_paths ex_win_host
     [joinpath ex_win_prefix ''pyside6-setup.log'', joinpath ex_win_prefix ''pyside6-setup.log'']
     (unreal_log ''Found potential PySide6 remnants:''
        (ex_win_state\<lparr>mach := ex_win_machine,
                      spawned := spawned ex_win_state @ [site_query ex_win_host ex_win_python]\<rparr>)) =
   \<lparr>mach = ex_win_machine\<lparr>files :=
       [(ex_win_prefix, Dir),
        (ex_win_python, File True),
        (joinpath ex_win_prefix ''Lib'', Dir),
        (ex_win_site, Dir),
        (joinpath ex_win_site ''PySide6'', Dir),
        (joinpath (joinpath ex_win_site ''PySide6'') ''QtCore.pyd'', File False),
        (joinpath ex_win_site ''shiboken6'', Dir)]\<rparr>,
    logged =
      [(Info, ''Found potential PySide6 remnants:''),
       (Info, ''  - '' @ win_str (joinpath ex_win_prefix ''pyside6-setup.log'')),
       (Info, ''  Removed file: '' @ win_str (joinpath ex_win_prefix ''pyside6-setup.log'')),
       (Info, ''  - '' @ win_str (joinpath ex_win_prefix ''pyside6-setup.log'')),
       (Warning, ''  Could not remove '' @ win_str (joinpath ex_win_prefix ''pyside6-setup.log'') @
                 '': OSError'')],
    spawned = [site_query ex_win_host ex_win_python]\<rparr>"
  by (simp add: remove_path_def unlink_def refused_def is_dir_def stat_def Let_def
      unreal_log_def unreal_log_warning_def ex_win_fields ex_win_state_def ex_win_machine_def
      ex_win_paths)

text \<open>
  Claim C5. The claim has cleanup remove entries of the site-packages directory. The
  directory cleanup sweeps is the first entry of \<^verbatim>\<open>site.getsitepackages()\<close>, and on
  Windows that entry is the prefix of the interpreter, not \<^verbatim>\<open>Lib\site-packages\<close>
  beneath it. On the Windows example the query prints the prefix; cleanup finds the log
  file \<^verbatim>\<open>pyside6-setup.log\<close> there (twice: without regard to case it matches
  \<^verbatim>\<open>PySide6*\<close> as well as \<^verbatim>\<open>*pyside6*\<close>), deletes it, logs a warning for the second
  attempt, and returns true. The file was not in site-packages, and the \<^verbatim>\<open>PySide6\<close> and
  \<^verbatim>\<open>shiboken6\<close> directories that are in site-packages are not looked at: they are
  still there afterwards.
\<close>

theorem cleanup_sweeps_the_prefix_on_windows:
  "fst (get_embedded_python_exe ex_win_host ex_win_state) = Inr (Some ex_win_python) \<and>
   fst (child ex_win_host (site_query ex_win_host ex_win_python) (mach ex_win_state)) =
     Exited 0 (Some (win_str ex_win_prefix @ [CHR 0x0A])) \<and>
   path_of ex_win_host (strip (win_str ex_win_prefix @ [CHR 0x0A])) = ex_win_prefix \<and>
   ex_win_prefix \<noteq> ex_win_site \<and>
   pyside_paths ex_win_host ex_win_machine ex_win_site =
     [joinpath ex_win_site ''PySide6'', joinpath ex_win_site ''shiboken6'',
      joinpath ex_win_site ''PySide6''] \<and>
   fst (cleanup_pyside6_cache ex_win_host ex_win_state) = Inr True \<and>
   files (mach (snd (cleanup_pyside6_cache ex_win_host ex_win_state))) =
     [(ex_win_prefix, Dir),
      (ex_win_python, File True),
      (joinpath ex_win_prefix ''Lib'', Dir),
      (ex_win_site, Dir),
      (joinpath ex_win_site ''PySide6'', Dir),
      (joinpath (joinpath ex_win_site ''PySide6'') ''QtCore.pyd'', File False),
      (joinpath ex_win_site ''shiboken6'', Dir)] \<and>
   logged (snd (cleanup_pyside6_cache ex_win_host ex_win_state)) =
     [(Info, ''Found potential PySide6 remnants:''),
      (Info, ''  - '' @ win_str (joinpath ex_win_prefix ''pyside6-setup.log'')),
      (Info, ''  Removed file: '' @ win_str (joinpath ex_win_prefix ''pyside6-setup.log'')),
      (Info, ''  - '' @ win_str (joinpath ex_win_prefix ''pyside6-setup.log'')),
      (Warning, ''  Could not remove '' @ win_str (joinpath ex_win_prefix ''pyside6-setup.log'') @
                '': OSError'')]"
proof -
  have 1: "fst (child ex_win_host (site_query ex_win_host ex_win_python) (mach ex_win_state)) =
           Exited 0 (Some (win_str ex_win_prefix @ [CHR 0x0A]))"
    by (simp add: ex_win_query)
  have 2: "path_of ex_win_host (strip (win_str ex_win_prefix @ [CHR 0x0A])) = ex_win_prefix"
    by (simp only: ex_win_fields ex_win_parsed)
  have 3: "ex_win_prefix \<noteq> ex_win_site"
    by (simp add: ex_win_paths)
  have 4: "pyside_paths ex_win_host ex_win_machine ex_win_site =
           [joinpath ex_win_site ''PySide6'', joinpath ex_win_site ''shiboken6'',
      joinpath ex_win_site ''PySide6'']"
    by (simp add: pyside_paths_def patterns_def path_glob_def children_def name_matches_def
        ex_win_fields startswith_def lower_def lower_char_def ex_win_machine_def ex_win_paths
        parent_def name_def)
  have 5: "fst (cleanup_pyside6_cache ex_win_host ex_win_state) = Inr True"
    unfolding cleanup_outcome [OF ex_win_found] 1 by simp
  have 6: "snd (cleanup_pyside6_cache ex_win_host ex_win_state) =
           remove_paths ex_win_host
             [joinpath ex_win_prefix ''pyside6-setup.log'', joinpath ex_win_prefix ''pyside6-setup.log'']
             (unreal_log ''Found potential PySide6 remnants:''
                (ex_win_state\<lparr>mach := ex_win_machine,
                              spawned := spawned ex_win_state @ [site_query ex_win_host ex_win_python]\<rparr>))"
    unfolding cleanup_state [OF ex_win_found ex_win_query] 2 Let_def ex_win_pyside_paths
    by simp
  show ?thesis
    unfolding 6 ex_win_sweep using ex_win_found 1 2 3 4 5 by simp
qed

end
